theory Spec2Isabelle
  imports Complex_Main "HOL-Library.Sublist"
begin

section \<open>Python strings\<close>

text \<open>
  A Python \<open>str\<close> is a sequence of Unicode code points; it is modelled as a list of
  integers, so that \<open>len\<close>, slicing and the emoji ranges of the source mean what
  they mean in Python. \<open>py\<close> turns an ASCII literal into such a string.

  The Unicode tables behind \<open>str.lower\<close>, \<open>str.isspace\<close> and the regular
  expression class \<open>\w\<close> are part of Python, not of the repository. \<open>is_space\<close> is
  the complete table of \<open>str.isspace\<close>; \<open>lower_cp\<close> and \<open>is_word\<close> are
  the tables for code points below 256, and leave every other code point unchanged
  (respectively outside \<open>\w\<close>).
\<close>

type_synonym pystr = "int list"

definition py :: "string \<Rightarrow> pystr" where
  "py s = map of_char s"

definition is_space :: "int \<Rightarrow> bool" where
  "is_space c \<longleftrightarrow>
     (9 \<le> c \<and> c \<le> 13) \<or> (28 \<le> c \<and> c \<le> 32) \<or> c = 133 \<or> c = 160 \<or> c = 5760 \<or>
     (8192 \<le> c \<and> c \<le> 8202) \<or> c = 8232 \<or> c = 8233 \<or> c = 8239 \<or> c = 8287 \<or> c = 12288"

definition lower_cp :: "int \<Rightarrow> int" where
  "lower_cp c = (if (65 \<le> c \<and> c \<le> 90) \<or> (192 \<le> c \<and> c \<le> 222 \<and> c \<noteq> 215) then c + 32 else c)"

definition lower :: "pystr \<Rightarrow> pystr" where
  "lower s = map lower_cp s"

definition is_word :: "int \<Rightarrow> bool" where
  "is_word c \<longleftrightarrow>
     (48 \<le> c \<and> c \<le> 57) \<or> (65 \<le> c \<and> c \<le> 90) \<or> c = 95 \<or> (97 \<le> c \<and> c \<le> 122) \<or>
     c = 170 \<or> c = 178 \<or> c = 179 \<or> c = 181 \<or> c = 185 \<or> c = 186 \<or> (188 \<le> c \<and> c \<le> 190) \<or>
     (192 \<le> c \<and> c \<le> 214) \<or> (216 \<le> c \<and> c \<le> 246) \<or> (248 \<le> c \<and> c \<le> 255)"

text \<open>\<open>s.strip()\<close>: whitespace removed at both ends.\<close>

definition strip :: "pystr \<Rightarrow> pystr" where
  "strip s = rev (dropWhile is_space (rev (dropWhile is_space s)))"

text \<open>\<open>needle in hay\<close> on strings is \<^const>\<open>sublist\<close>; \<open>s.startswith(p)\<close> is \<^const>\<open>prefix\<close>.\<close>

text \<open>\<open>s.split(sep)[0]\<close> for a non-empty separator: the text before its first occurrence,
  all of \<open>s\<close> when it does not occur.\<close>

fun before_first :: "pystr \<Rightarrow> pystr \<Rightarrow> pystr" where
  "before_first sep [] = []"
| "before_first sep (c # cs) = (if prefix sep (c # cs) then [] else c # before_first sep cs)"

text \<open>\<open>s.split()\<close>: the maximal runs of non-whitespace; the second argument is the run
  being read.\<close>

fun py_split_acc :: "pystr \<Rightarrow> pystr \<Rightarrow> pystr list" where
  "py_split_acc [] w = (if w = [] then [] else [w])"
| "py_split_acc (c # cs) w =
     (if is_space c then (if w = [] then py_split_acc cs [] else w # py_split_acc cs [])
      else py_split_acc cs (w @ [c]))"

definition py_split :: "pystr \<Rightarrow> pystr list" where
  "py_split s = py_split_acc s []"

text \<open>\<open>re.split(r'\W+', s)\<close>: the pieces between maximal runs of non-word characters,
  empty pieces at either end included. The flag says that the previous character belonged
  to a separator.\<close>

fun re_split_W_acc :: "pystr \<Rightarrow> pystr \<Rightarrow> bool \<Rightarrow> pystr list" where
  "re_split_W_acc [] w insep = [w]"
| "re_split_W_acc (c # cs) w insep =
     (if is_word c then re_split_W_acc cs (w @ [c]) False
      else if insep then re_split_W_acc cs w True
      else w # re_split_W_acc cs [] True)"

definition re_split_W :: "pystr \<Rightarrow> pystr list" where
  "re_split_W s = re_split_W_acc s [] False"

text \<open>\<open>str(n)\<close> for a non-negative integer.\<close>

fun str_nat :: "nat \<Rightarrow> pystr" where
  "str_nat n = (if n < 10 then [48 + int n] else str_nat (n div 10) @ [48 + int (n mod 10)])"

declare str_nat.simps [simp del]

section \<open>Category matching\<close>

text \<open>\<open>strip_leading_emoji\<close>: the regular expression
  \<open>^[\U0001F300-\U0001F9FF\U00002600-\U000027BF]+\s*\<close> replaced by the empty string.\<close>

definition is_emoji :: "int \<Rightarrow> bool" where
  "is_emoji c \<longleftrightarrow> (127744 \<le> c \<and> c \<le> 129535) \<or> (9728 \<le> c \<and> c \<le> 10175)"

definition strip_leading_emoji :: "pystr \<Rightarrow> pystr" where
  "strip_leading_emoji text =
     (case text of [] \<Rightarrow> []
      | c # cs \<Rightarrow> if is_emoji c then dropWhile is_space (dropWhile is_emoji text) else text)"

definition first_word :: "pystr \<Rightarrow> pystr" where
  "first_word s = (case py_split s of [] \<Rightarrow> [] | w # ws \<Rightarrow> w)"

text \<open>The test of the last loop of \<open>match_category\<close>: the first words agree and at least
  half of the words of the answer occur in the category. The word sets are Python sets, so
  the words are counted without repetition.\<close>

definition fuzzy_words_match :: "pystr \<Rightarrow> pystr \<Rightarrow> bool" where
  "fuzzy_words_match cat_lower ynab_cat =
     (let cat_words = remdups (re_split_W cat_lower);
          ynab_stripped = lower (strip_leading_emoji ynab_cat);
          ynab_words = re_split_W ynab_stripped;
          cat_first = first_word cat_lower;
          ynab_first = first_word ynab_stripped
      in cat_first \<noteq> [] \<and> cat_first = ynab_first \<and>
         length cat_words \<le> 2 * length (filter (\<lambda>w. w \<in> set ynab_words) cat_words))"

definition match_category :: "pystr \<Rightarrow> pystr list \<Rightarrow> pystr \<times> bool" where
  "match_category cat ynab_categories =
     (if cat \<in> set ynab_categories then (cat, True)
      else let cat_lower = lower cat in
        (case find (\<lambda>ynab_cat. lower ynab_cat = cat_lower) ynab_categories of
           Some ynab_cat \<Rightarrow> (ynab_cat, True)
         | None \<Rightarrow>
            (let cat_stripped = lower (strip_leading_emoji cat) in
             (case find (\<lambda>ynab_cat. lower (strip_leading_emoji ynab_cat) = cat_lower \<or>
                                    lower (strip_leading_emoji ynab_cat) = cat_stripped)
                        ynab_categories of
                Some ynab_cat \<Rightarrow> (ynab_cat, True)
              | None \<Rightarrow>
                 (case find (fuzzy_words_match cat_lower) ynab_categories of
                    Some ynab_cat \<Rightarrow> (ynab_cat, True)
                  | None \<Rightarrow> (cat, False))))))"

section \<open>The category cache (utils.py)\<close>

text \<open>The module-level dictionary \<open>_category_cache\<close> and its dirty flag, passed
  explicitly.\<close>

record cache_state =
  entries :: "pystr \<rightharpoonup> pystr"
  dirty :: bool

definition normalize_item_name :: "pystr \<Rightarrow> pystr" where
  "normalize_item_name name = take 60 (lower (strip name))"

definition get_cached_category :: "cache_state \<Rightarrow> pystr \<Rightarrow> pystr option" where
  "get_cached_category c item_name = entries c (normalize_item_name item_name)"

definition cache_category :: "cache_state \<Rightarrow> pystr \<Rightarrow> pystr \<Rightarrow> cache_state" where
  "cache_category c item_name category =
     (let key = normalize_item_name item_name
      in if key \<noteq> [] \<and> category \<noteq> []
         then c\<lparr>entries := (entries c)(key \<mapsto> category), dirty := True\<rparr>
         else c)"

text \<open>Python's truth value of an optional string: \<open>None\<close> and \<open>""\<close> are false.\<close>

fun truthy :: "pystr option \<Rightarrow> bool" where
  "truthy None = False"
| "truthy (Some s) = (s \<noteq> [])"

section \<open>The categorizer (process_transactions.py)\<close>

text \<open>
  The text-generation service is an input of the model. A reply to a chunk is given as
  the numbered lines that the parser accepts (\<open>line.split(".", 1)\<close> has two parts and
  the first is an integer): the number and the text after the first dot. \<open>None\<close>
  stands for an API error or an empty reply. The replies to the single-item retry and to
  the resubmission of a suspicious item are the raw texts, \<open>None\<close> when the request
  (or, for the resubmission, the logging that follows it) raises.
\<close>

record client =
  chunk_reply :: "pystr list \<Rightarrow> (int \<times> pystr) list option"
  retry_reply :: "pystr \<Rightarrow> pystr option"
  resubmit_reply :: "pystr \<Rightarrow> pystr \<Rightarrow> pystr option"

datatype call =
  ChunkCall "(pystr \<times> pystr) list"
| RetryCall pystr
| ResubmitCall pystr pystr


text \<open>The cleaning of a returned category: the text before a parenthesis, then before
  each explanation marker. The marker is looked for in the lowercased text and split off
  the text as it is.\<close>

definition strip_paren :: "pystr \<Rightarrow> pystr" where
  "strip_paren cat = (if sublist (py ''('') cat then strip (before_first (py ''('') cat) else cat)"

definition strip_marker :: "pystr \<Rightarrow> pystr \<Rightarrow> pystr" where
  "strip_marker cat marker =
     (if sublist marker (lower cat) then strip (before_first marker cat) else cat)"

definition clean_category :: "pystr \<Rightarrow> pystr" where
  "clean_category text =
     foldl strip_marker (strip_paren (strip text)) [py '' - '', py '' since '', py '' because '']"

definition looks_like_product :: "pystr \<Rightarrow> bool" where
  "looks_like_product cat \<longleftrightarrow>
     length cat > 40 \<or> sublist (py '','') cat \<or>
     sublist (py ''ounce'') (lower cat) \<or> sublist (py ''oz'') (lower cat) \<or>
     sublist (py ''pack'') (lower cat) \<or> sublist (py ''count'') (lower cat) \<or>
     prefix (py ''organic '') (lower cat) \<or>
     sublist (py ''365 '') cat \<or> sublist (py ''by whole foods'') (lower cat)"

definition retry_categorize_item :: "pystr \<Rightarrow> pystr list \<Rightarrow> client \<Rightarrow> pystr option" where
  "retry_categorize_item item ynab_categories cl =
     (case retry_reply cl item of
        None \<Rightarrow> None
      | Some text \<Rightarrow>
          (let (matched_cat, was_matched) = match_category (strip_paren (strip text)) ynab_categories
           in if was_matched then Some matched_cat else None))"

text \<open>\<open>SUSPICIOUS_RULES\<close> as the module binds it last. The fourth key starts with the
  three characters that the source file has before \<open>" Gear"\<close>.\<close>

definition SUSPICIOUS_RULES :: "(pystr \<times> pystr list) list" where
  "SUSPICIOUS_RULES =
     [(py ''Meats'', [py ''banana'', py ''tofu'', py ''avocado'']),
      (py ''Bananas'', [py ''chicken'', py ''beef'', py ''bacon'']),
      (py ''Frozen'', [py ''broccoli'', py ''spinach'', py ''peas'', py ''mango'', py ''blueberries'']),
      ([252, 233, 237] @ py '' Gear'', [py ''diaper'', py ''wipes'']),
      (py ''Household Supplies'', [py ''diaper'', py ''wipes''])]"

definition is_suspicious_categorization :: "pystr \<Rightarrow> pystr \<Rightarrow> bool" where
  "is_suspicious_categorization item category =
     (let item_lower = lower item;
          cat_stripped = strip_leading_emoji category
      in list_ex (\<lambda>cat_key.
           case map_of SUSPICIOUS_RULES cat_key of
             None \<Rightarrow> False
           | Some keywords \<Rightarrow> list_ex (\<lambda>keyword. sublist keyword item_lower) keywords)
         [category, cat_stripped])"

definition resubmit_suspicious_item :: "pystr \<Rightarrow> pystr \<Rightarrow> pystr list \<Rightarrow> client \<Rightarrow> pystr" where
  "resubmit_suspicious_item item original_category ynab_categories cl =
     (case resubmit_reply cl item original_category of
        None \<Rightarrow> original_category
      | Some text \<Rightarrow>
          (let (matched_cat, was_matched) = match_category (strip text) ynab_categories
           in if was_matched then matched_cat else original_category))"

text \<open>\<open>d[cat].append(item)\<close> on a \<open>defaultdict(list)\<close>; the dictionary keeps its keys in
  insertion order, which the caller's loop over \<open>categorized.items()\<close> follows.\<close>

fun dd_append :: "(pystr \<times> pystr list) list \<Rightarrow> pystr \<Rightarrow> pystr \<Rightarrow> (pystr \<times> pystr list) list" where
  "dd_append [] cat item = [(cat, [item])]"
| "dd_append ((k, items) # d) cat item =
     (if k = cat then (k, items @ [item]) # d else (k, items) # dd_append d cat item)"

record cat_state =
  cache :: cache_state
  results :: "pystr \<Rightarrow> (pystr \<times> pystr list) list"
  unmatched_categories :: "pystr set"
  calls :: "call list"

definition store_result :: "cat_state \<Rightarrow> pystr \<Rightarrow> pystr \<Rightarrow> pystr \<Rightarrow> cat_state" where
  "store_result st import_id cat item_name =
     st\<lparr>results := (results st)(import_id := dd_append (results st import_id) cat item_name)\<rparr>"

text \<open>One numbered line of a chunk reply in \<open>batch_categorize_items\<close>.\<close>

definition process_line ::
  "client \<Rightarrow> pystr list \<Rightarrow> (pystr \<times> pystr) list \<Rightarrow> cat_state \<Rightarrow> int \<times> pystr \<Rightarrow> cat_state" where
  "process_line cl ynab_categories item_refs st line =
     (let idx = fst line - 1;
          cat0 = clean_category (snd line);
          (cat1, matched) = (if looks_like_product cat0 then (cat0, False)
                             else match_category cat0 ynab_categories)
      in if 0 \<le> idx \<and> idx < int (length item_refs) then
           (let (import_id, item_name) = item_refs ! nat idx;
                (cat2, st1) =
                  (if \<not> matched then
                     (let retry_cat = retry_categorize_item item_name ynab_categories cl;
                          st' = st\<lparr>calls := calls st @ [RetryCall item_name]\<rparr>
                      in if truthy retry_cat then (the retry_cat, st')
                         else (cat1, st'\<lparr>unmatched_categories := insert cat1 (unmatched_categories st')\<rparr>))
                   else (cat1, st));
                (cat3, st2) =
                  (if is_suspicious_categorization item_name cat2
                   then (resubmit_suspicious_item item_name cat2 ynab_categories cl,
                         st1\<lparr>calls := calls st1 @ [ResubmitCall item_name cat2]\<rparr>)
                   else (cat2, st1));
                st3 = store_result st2 import_id cat3 item_name
            in st3\<lparr>cache := cache_category (cache st3) item_name cat3\<rparr>)
         else st)"

definition process_chunk ::
  "client \<Rightarrow> pystr list \<Rightarrow> cat_state \<Rightarrow> (pystr \<times> pystr) list \<Rightarrow> cat_state" where
  "process_chunk cl ynab_categories st chunk =
     (let st' = st\<lparr>calls := calls st @ [ChunkCall chunk]\<rparr>
      in case chunk_reply cl (map (\<lambda>(import_id, item_name). take 80 item_name) chunk) of
           None \<Rightarrow> st'
         | Some lines \<Rightarrow> foldl (process_line cl ynab_categories chunk) st' lines)"

text \<open>\<open>range(0, len(xs), n)\<close> with the slices \<open>xs[i:i + n]\<close>.\<close>

function chunks :: "nat \<Rightarrow> 'a list \<Rightarrow> 'a list list" where
  "chunks n xs = (if n = 0 \<or> xs = [] then [] else take n xs # chunks n (drop n xs))"
  by pat_completeness auto
termination
  by (relation "measure (\<lambda>(n, xs). length xs)") auto

declare chunks.simps [simp del]

text \<open>The two passes over the cache. The first fills the results from the cache; the
  second, run only when some item is not cached, goes over all items again: it appends the
  cached ones once more and collects the others for the classifier.\<close>

definition cache_hit :: "cache_state \<Rightarrow> pystr \<Rightarrow> (pystr \<Rightarrow> (pystr \<times> pystr list) list) \<Rightarrow> pystr \<Rightarrow>
    (pystr \<Rightarrow> (pystr \<times> pystr list) list)" where
  "cache_hit c import_id res item =
     (case get_cached_category c item of
        Some cached_cat \<Rightarrow>
          if cached_cat \<noteq> [] then res(import_id := dd_append (res import_id) cached_cat item)
          else res
      | None \<Rightarrow> res)"

definition cached_pass :: "cache_state \<Rightarrow> (pystr \<times> pystr list) list \<Rightarrow>
    (pystr \<Rightarrow> (pystr \<times> pystr list) list) \<Rightarrow> (pystr \<Rightarrow> (pystr \<times> pystr list) list)" where
  "cached_pass c all_items res =
     foldl (\<lambda>res (import_id, names). foldl (cache_hit c import_id) res names) res all_items"

definition all_item_list :: "cache_state \<Rightarrow> (pystr \<times> pystr list) list \<Rightarrow> (pystr \<times> pystr) list" where
  "all_item_list c all_items =
     concat (map (\<lambda>(import_id, items).
        map (Pair import_id) (filter (\<lambda>item. \<not> truthy (get_cached_category c item)) items)) all_items)"

definition batch_categorize_items ::
  "(pystr \<times> pystr list) list \<Rightarrow> client \<Rightarrow> pystr list \<Rightarrow> cache_state \<Rightarrow> cat_state" where
  "batch_categorize_items all_items cl ynab_categories c =
     (let st0 = \<lparr>cache = c, results = (\<lambda>import_id. []), unmatched_categories = {}, calls = []\<rparr>
      in if all_items = [] then st0
         else
           (let st1 = st0\<lparr>results := cached_pass c all_items (results st0)\<rparr>
            in if all_item_list c all_items = [] then st1
               else foldl (process_chunk cl ynab_categories)
                      (st1\<lparr>results := cached_pass c all_items (results st1)\<rparr>)
                      (chunks 30 (all_item_list c all_items))))"

text \<open>One numbered line of a request's reply in \<open>retrieve_batch_results\<close> (the
  asynchronous path), on the request's own dictionary \<open>categories\<close>.\<close>

text \<open>The fallback of that path: the literal of the source that has three characters
  before \<open>Groceries\<close> when it is a valid category, \<open>Groceries\<close> otherwise.\<close>

definition fallback_category :: "pystr list \<Rightarrow> pystr" where
  "fallback_category ynab_categories =
     (if [252, 231, 229] @ py ''Groceries'' \<in> set ynab_categories
      then [252, 231, 229] @ py ''Groceries'' else py ''Groceries'')"

record batch_state =
  b_cache :: cache_state
  b_categories :: "(pystr \<times> pystr list) list"
  b_unmatched :: "(pystr \<times> pystr list) list"
  b_calls :: "call list"

definition retrieve_line ::
  "client \<Rightarrow> pystr list \<Rightarrow> pystr list \<Rightarrow> batch_state \<Rightarrow> int \<times> pystr \<Rightarrow> batch_state" where
  "retrieve_line cl ynab_categories items st line =
     (let idx = fst line - 1;
          cat = clean_category (snd line)
      in if 0 \<le> idx \<and> idx < int (length items) then
           (let item_name = items ! nat idx;
                (matched_cat, was_matched) =
                   (if looks_like_product cat then (cat, False)
                    else match_category cat ynab_categories)
            in if was_matched then
                 st\<lparr>b_categories := dd_append (b_categories st) matched_cat item_name,
                    b_cache := cache_category (b_cache st) item_name matched_cat\<rparr>
               else
                 (let retry_cat = retry_categorize_item item_name ynab_categories cl;
                      st' = st\<lparr>b_calls := b_calls st @ [RetryCall item_name]\<rparr>
                  in if truthy retry_cat then
                       st'\<lparr>b_categories := dd_append (b_categories st') (the retry_cat) item_name,
                           b_cache := cache_category (b_cache st') item_name (the retry_cat)\<rparr>
                     else
                       (let fallback = fallback_category ynab_categories
                        in st'\<lparr>b_unmatched := dd_append (b_unmatched st') cat item_name,
                               b_categories := dd_append (b_categories st') fallback item_name,
                               b_cache := cache_category (b_cache st') item_name fallback\<rparr>)))
         else st)"

section \<open>Order history (load_order_history)\<close>

text \<open>
  Money is Python's \<open>Decimal\<close>; sums, differences, absolute values and comparisons of
  decimals are exact, and the model uses rational numbers for them. A date is the day
  number of Python's \<open>date.toordinal()\<close>, so that \<open>(a - b).days\<close> is a difference of
  integers; \<open>None\<close> is a missing or unparsable ship date. A \<open>raw_item\<close> is one row of the
  order-history files after the parsing of its columns.
\<close>

record raw_item =
  ri_order_id :: pystr
  ri_name :: pystr
  ri_total :: rat
  ri_ship_date :: "int option"
  ri_quantity :: int
  ri_shipping_option :: pystr

record ship_item =
  si_name :: pystr
  si_total :: rat
  si_qty :: int

record shipment =
  s_ship_date :: "int option"
  s_total :: rat
  s_items :: "ship_item list"
  s_is_grocery :: bool

record order_item =
  oi_name :: pystr
  oi_total :: rat

record order_data =
  o_shipments :: "shipment list"
  o_items :: "order_item list"
  o_is_grocery :: bool

definition GROCERY_SHIPPING_OPTIONS :: "pystr set" where
  "GROCERY_SHIPPING_OPTIONS = {py ''scheduled-houdini'', py ''scheduled-one-houdini''}"

text \<open>\<open>shipment_groups[ship_key].append(item)\<close>: a dictionary in insertion order, keyed by the
  ship date (\<open>None\<close> is the key \<open>"unknown"\<close>).\<close>

fun group_add :: "(int option \<times> raw_item list) list \<Rightarrow> raw_item \<Rightarrow> (int option \<times> raw_item list) list" where
  "group_add [] it = [(ri_ship_date it, [it])]"
| "group_add ((k, g) # gs) it =
     (if k = ri_ship_date it then (k, g @ [it]) # gs else (k, g) # group_add gs it)"

definition shipment_groups :: "raw_item list \<Rightarrow> (int option \<times> raw_item list) list" where
  "shipment_groups order_items = foldl group_add [] order_items"

definition make_shipment :: "raw_item list \<Rightarrow> shipment" where
  "make_shipment group_items =
     \<lparr>s_ship_date = (case group_items of [] \<Rightarrow> None | it # _ \<Rightarrow> ri_ship_date it),
      s_total = sum_list (map ri_total group_items),
      s_items = map (\<lambda>it. \<lparr>si_name = ri_name it, si_total = ri_total it, si_qty = ri_quantity it\<rparr>) group_items,
      s_is_grocery = list_all (\<lambda>it. ri_shipping_option it \<in> GROCERY_SHIPPING_OPTIONS) group_items\<rparr>"

text \<open>\<open>datetime.max.date()\<close> is 9999-12-31, day number 3652059.\<close>

definition date_max :: int where
  "date_max = 3652059"

definition ship_sort_key :: "shipment \<Rightarrow> int" where
  "ship_sort_key s = (case s_ship_date s of Some d \<Rightarrow> d | None \<Rightarrow> date_max)"

definition build_order :: "raw_item list \<Rightarrow> order_data" where
  "build_order order_items =
     (let shipments = sort_key ship_sort_key (map (\<lambda>(ship_key, group_items). make_shipment group_items)
                                                 (shipment_groups order_items))
      in \<lparr>o_shipments = shipments,
          o_items = map (\<lambda>it. \<lparr>oi_name = ri_name it, oi_total = ri_total it\<rparr>) order_items,
          o_is_grocery = (if shipments \<noteq> [] then list_all s_is_grocery shipments else False)\<rparr>)"

text \<open>The dictionary \<open>orders\<close>: rows without an order id are not loaded, and an order id
  is a key when some row carries it.\<close>

definition load_order_history :: "raw_item list \<Rightarrow> pystr \<Rightarrow> order_data option" where
  "load_order_history rows order_id =
     (let order_items = filter (\<lambda>it. ri_order_id it \<noteq> [] \<and> ri_order_id it = order_id) rows
      in if order_items = [] then None else Some (build_order order_items))"

section \<open>Shipment matching (main, pass 1)\<close>

text \<open>Strategy 1, the loop over the shipments with its two variables \<open>best_match\<close> and
  \<open>best_days_diff\<close>.\<close>

fun date_loop :: "int \<Rightarrow> shipment list \<Rightarrow> shipment option \<Rightarrow> int \<Rightarrow> shipment option" where
  "date_loop charge_date [] best_match best_days_diff = best_match"
| "date_loop charge_date (s # ss) best_match best_days_diff =
     (case s_ship_date s of
        None \<Rightarrow> date_loop charge_date ss best_match best_days_diff
      | Some d \<Rightarrow>
          (let days_diff = charge_date - d
           in if 0 \<le> days_diff \<and> days_diff \<le> 7 \<and> days_diff < best_days_diff
              then date_loop charge_date ss (Some s) days_diff
              else date_loop charge_date ss best_match best_days_diff))"

definition date_match :: "int option \<Rightarrow> shipment list \<Rightarrow> shipment option" where
  "date_match charge_date shipments =
     (case charge_date of None \<Rightarrow> None | Some cd \<Rightarrow> date_loop cd shipments None 999)"

definition amount_diff :: "rat \<Rightarrow> rat \<Rightarrow> rat" where
  "amount_diff listed_total amount = \<bar>listed_total - \<bar>amount\<bar>\<bar>"

text \<open>Strategy 4, the loop with \<open>best_diff\<close>, which starts at \<open>Decimal("999999")\<close>.\<close>

fun best_fit_loop :: "rat \<Rightarrow> shipment list \<Rightarrow> shipment option \<Rightarrow> rat \<Rightarrow> shipment option" where
  "best_fit_loop amount [] matched best_diff = matched"
| "best_fit_loop amount (s # ss) matched best_diff =
     (let diff = amount_diff (s_total s) amount
      in if diff < best_diff then best_fit_loop amount ss (Some s) diff
         else best_fit_loop amount ss matched best_diff)"

record alloc_item =
  a_name :: pystr
  a_base_name :: "pystr option"
  a_amount :: rat
  a_original_total :: "rat option"
  a_qty :: "int option"

text \<open>A list that Python takes for true: present and not empty.\<close>

fun truthy_list :: "'a list option \<Rightarrow> bool" where
  "truthy_list None = False"
| "truthy_list (Some xs) = (xs \<noteq> [])"

text \<open>The four strategies in the order of the source; the result is the pair of the
  variables \<open>matched_shipment\<close> and \<open>matched_items_with_amounts\<close> before the allocation.\<close>

definition match_shipment ::
  "int option \<Rightarrow> rat \<Rightarrow> shipment list \<Rightarrow> order_item list \<Rightarrow> shipment option \<times> alloc_item list option" where
  "match_shipment charge_date amount shipments all_items =
     (let m1 = date_match charge_date shipments;
          m2 = (case m1 of
                  None \<Rightarrow> find (\<lambda>s. amount_diff (s_total s) amount < 1) shipments
                | Some s \<Rightarrow> Some s);
          mi = (case m2 of
                  None \<Rightarrow>
                    (case find (\<lambda>it. amount_diff (oi_total it) amount < 1) all_items of
                       None \<Rightarrow> None
                     | Some it \<Rightarrow> Some [\<lparr>a_name = oi_name it, a_base_name = None, a_amount = amount,
                                         a_original_total = None, a_qty = None\<rparr>])
                | Some s \<Rightarrow> None);
          m4 = (if m2 = None \<and> \<not> truthy_list mi then best_fit_loop amount shipments None 999999
                else m2)
      in (m4, mi))"

section \<open>Proportional allocation\<close>

text \<open>
  The source computes the allocation in binary floating point:
  \<open>round(float(item["total"]) * float(charge_amount / shipment_total), 2)\<close>. The model
  computes the product exactly and rounds it to cents, halves to the even cent as Python's
  \<open>round\<close> does. The two agree wherever the exact product is not within a floating-point
  error of a half cent.
\<close>

definition py_round2 :: "rat \<Rightarrow> rat" where
  "py_round2 x =
     (let y = x * 100; f = \<lfloor>y\<rfloor>; r = y - of_int f
      in of_int (if r < 1 / 2 then f else if 1 / 2 < r then f + 1
                 else if even f then f else f + 1) / 100)"

definition allocate_item :: "rat \<Rightarrow> ship_item \<Rightarrow> alloc_item" where
  "allocate_item ratio item =
     (let item_amount = si_total item * ratio;
          qty = si_qty item;
          display_name = (if qty > 1 then str_nat (nat qty) @ py '' x '' @ si_name item
                          else si_name item)
      in \<lparr>a_name = display_name, a_base_name = Some (si_name item),
          a_amount = py_round2 item_amount, a_original_total = Some (si_total item),
          a_qty = Some qty\<rparr>)"

definition allocate :: "rat \<Rightarrow> shipment \<Rightarrow> alloc_item list option" where
  "allocate amount matched_shipment =
     (let shipment_total = s_total matched_shipment;
          charge_amount = \<bar>amount\<bar>
      in if shipment_total > 0
         then Some (map (allocate_item (charge_amount / shipment_total)) (s_items matched_shipment))
         else None)"

section \<open>Building the transaction of a bank charge (main, pass 1)\<close>

text \<open>
  A row of the bank export after the reading of its columns. \<open>r_parsed_date\<close> is the
  result of trying the three date formats: the date rewritten as \<open>%Y-%m-%d\<close> with its day
  number, \<open>None\<close> when no format fits. \<open>r_order_id\<close> is \<open>extract_order_id(memo)\<close>. An
  amount column is empty, a decimal, or text that \<open>Decimal\<close> rejects.
\<close>

datatype amount_field = Blank | Parsed rat | Invalid

record row =
  r_date :: pystr
  r_parsed_date :: "(pystr \<times> int) option"
  r_payee :: pystr
  r_order_id :: "pystr option"
  r_outflow :: amount_field
  r_inflow :: amount_field

datatype flag_color = yellow | blue

record split =
  sp_category :: pystr
  sp_amount :: rat
  sp_memo :: pystr
  sp_items :: "pystr list"

text \<open>The transaction dictionary; a key that the source sets only on some paths is an
  option. The time stamp \<open>last_updated\<close> is left out.\<close>

record txn =
  t_import_id :: pystr
  t_date :: pystr
  t_order_id :: pystr
  t_amount :: rat
  t_payee :: pystr
  t_memo :: pystr
  t_is_refund :: bool
  t_is_grocery :: bool
  t_flag :: flag_color
  t_splits :: "split list"
  t_items :: "pystr list option"
  t_items_with_amounts :: "alloc_item list option"
  t_grocery_items :: "alloc_item list option"
  t_all_items :: "pystr list option"

definition is_amazon_transaction :: "pystr \<Rightarrow> bool" where
  "is_amazon_transaction payee \<longleftrightarrow>
     payee \<noteq> [] \<and> list_ex (\<lambda>x. sublist x (lower payee)) [py ''amazon'', py ''amzn'']"

definition is_grocery_transaction :: "pystr \<Rightarrow> bool" where
  "is_grocery_transaction payee \<longleftrightarrow>
     payee \<noteq> [] \<and> list_ex (\<lambda>g. sublist g (lower payee))
                     [py ''amazon fresh'', py ''whole foods'', py ''amazon groce'']"

definition parse_amount :: "amount_field \<Rightarrow> amount_field \<Rightarrow> rat option" where
  "parse_amount inflow outflow =
     (case inflow of
        Parsed v \<Rightarrow> Some v
      | Invalid \<Rightarrow> None
      | Blank \<Rightarrow> (case outflow of Parsed v \<Rightarrow> Some (- v) | Invalid \<Rightarrow> None | Blank \<Rightarrow> None))"

text \<open>\<open>f"AMZ2:{order_id}:{amount_cents}:{direction}"\<close> with
  \<open>amount_cents = int(abs(amount) * 100)\<close>.\<close>

definition import_id_of :: "pystr \<Rightarrow> rat \<Rightarrow> bool \<Rightarrow> pystr" where
  "import_id_of order_id amount is_inflow =
     (let amount_cents = nat \<lfloor>\<bar>amount\<bar> * 100\<rfloor>;
          direction = (if is_inflow then py ''R'' else py ''P'')
      in py ''AMZ2:'' @ order_id @ py '':'' @ str_nat amount_cents @ py '':'' @ direction)"

text \<open>The sign of a split: negative for a purchase, positive for a refund.\<close>

definition signed_amount :: "bool \<Rightarrow> rat \<Rightarrow> rat" where
  "signed_amount is_refund a = (if is_refund then \<bar>a\<bar> else - \<bar>a\<bar>)"

datatype outcome =
  Skip
| Cached
| Append txn
| Queue txn "pystr list"

text \<open>The loop body from the tip detection on, for a charge whose order was found.\<close>

definition process_found :: "txn \<Rightarrow> pystr \<Rightarrow> rat \<Rightarrow> int option \<Rightarrow> order_data \<Rightarrow> outcome" where
  "process_found tx payee amount charge_date od =
     (if sublist (py ''amazon tips'') (lower payee) then
        Append (tx\<lparr>t_memo := py ''Delivery Tip'',
                   t_splits := [\<lparr>sp_category = py ''Delivery Fee'',
                                 sp_amount = signed_amount (t_is_refund tx) amount,
                                 sp_memo = py ''Delivery Tip'', sp_items = []\<rparr>],
                   t_items := Some [], t_items_with_amounts := Some []\<rparr>)
      else
        (let (matched_shipment, mi) = match_shipment charge_date amount (o_shipments od) (o_items od);
             matched_items_with_amounts =
               (case matched_shipment of
                  Some s \<Rightarrow> if \<not> truthy_list mi then allocate amount s else mi
                | None \<Rightarrow> mi)
         in if \<not> truthy_list matched_items_with_amounts then
              Append (tx\<lparr>t_flag := blue,
                         t_memo := py ''Order '' @ t_order_id tx @ py '' - NO SHIPMENT MATCH'',
                         t_all_items := Some (map oi_name (o_items od))\<rparr>)
            else
              (let allocated = the matched_items_with_amounts;
                   shipment_is_grocery = (case matched_shipment of Some s \<Rightarrow> s_is_grocery s | None \<Rightarrow> False);
                   is_grocery = (shipment_is_grocery \<or> o_is_grocery od \<or> is_grocery_transaction payee);
                   base_items = map (\<lambda>item. case a_base_name item of Some b \<Rightarrow> b | None \<Rightarrow> a_name item) allocated;
                   tx' = tx\<lparr>t_is_grocery := is_grocery, t_items := Some (map a_name allocated),
                            t_items_with_amounts := Some allocated\<rparr>
               in if is_grocery then
                    Append (tx'\<lparr>t_grocery_items := Some allocated,
                                t_splits := [\<lparr>sp_category = py ''Groceries'',
                                              sp_amount = signed_amount (t_is_refund tx') amount,
                                              sp_memo = py ''Groceries'',
                                              sp_items = map a_name allocated\<rparr>]\<rparr>)
                  else Queue tx' base_items)))"

text \<open>The dictionary \<open>txn\<close> as the loop body first builds it.\<close>

definition new_txn :: "row \<Rightarrow> pystr \<Rightarrow> rat \<Rightarrow> txn" where
  "new_txn r order_id amount =
     (let payee = r_payee r;
          is_inflow = (r_inflow r \<noteq> Blank);
          is_grocery = is_grocery_transaction payee
      in \<lparr>t_import_id = import_id_of order_id amount is_inflow,
          t_date = (case r_parsed_date r of Some (iso_date, d) \<Rightarrow> iso_date | None \<Rightarrow> r_date r),
          t_order_id = order_id,
          t_amount = amount,
          t_payee = (if sublist (py ''whole foods'') (lower payee) then py ''Whole Foods''
                     else if is_grocery then py ''Amazon Fresh'' else py ''Amazon.com''),
          t_memo = py ''Order '' @ order_id,
          t_is_refund = is_inflow, t_is_grocery = is_grocery, t_flag = yellow,
          t_splits = [], t_items = None, t_items_with_amounts = None,
          t_grocery_items = None, t_all_items = None\<rparr>)"

text \<open>The whole loop body for one row. \<open>existing_ids\<close> is the set of import ids of the cache
  file, computed once before the loop.\<close>

definition process_row :: "pystr set \<Rightarrow> (pystr \<Rightarrow> order_data option) \<Rightarrow> row \<Rightarrow> outcome" where
  "process_row existing_ids order_history r =
     (let payee = r_payee r in
      if \<not> is_amazon_transaction payee then Skip
      else if \<not> truthy (r_order_id r) then Skip
      else
        (case parse_amount (r_inflow r) (r_outflow r) of
           None \<Rightarrow> Skip
         | Some amount \<Rightarrow>
             (let order_id = the (r_order_id r);
                  import_id = import_id_of order_id amount (r_inflow r \<noteq> Blank)
              in if import_id \<in> existing_ids then Cached
                 else
                   (let tx = new_txn r order_id amount
                    in case order_history order_id of
                         None \<Rightarrow>
                           Append (tx\<lparr>t_flag := blue,
                                      t_memo := py ''Order '' @ order_id @ py '' - NEEDS ITEMIZATION''\<rparr>)
                       | Some od \<Rightarrow>
                           process_found tx payee amount (map_option snd (r_parsed_date r)) od))))"

section \<open>One split per item (main, pass 2, synchronous mode)\<close>

text \<open>The dictionary from item name to category, filled in the order of
  \<open>categorized.items()\<close>: a later entry replaces an earlier one.\<close>

definition item_to_category :: "(pystr \<times> pystr list) list \<Rightarrow> (pystr \<rightharpoonup> pystr)" where
  "item_to_category categorized =
     foldl (\<lambda>m (cat, names). foldl (\<lambda>m item_name. m(item_name \<mapsto> cat)) m names) Map.empty categorized"

definition item_split :: "bool \<Rightarrow> (pystr \<rightharpoonup> pystr) \<Rightarrow> alloc_item \<Rightarrow> split" where
  "item_split is_refund m item_data =
     (let display_name = a_name item_data;
          base_name = (case a_base_name item_data of Some b \<Rightarrow> b | None \<Rightarrow> display_name);
          category = (case m base_name of Some c \<Rightarrow> c | None \<Rightarrow> py ''Household Supplies'')
      in \<lparr>sp_category = category, sp_amount = signed_amount is_refund (a_amount item_data),
          sp_memo = take 50 display_name, sp_items = [display_name]\<rparr>)"

text \<open>\<open>sep.join(xs)\<close>, and the first key of a dictionary whose list is longest (what
  \<open>max\<close> with a key function returns).\<close>

fun py_join :: "pystr \<Rightarrow> pystr list \<Rightarrow> pystr" where
  "py_join sep [] = []"
| "py_join sep [x] = x"
| "py_join sep (x # y # ys) = x @ sep @ py_join sep (y # ys)"

fun best_category :: "(pystr \<times> pystr list) list \<Rightarrow> pystr" where
  "best_category [] = py ''Household Supplies''"
| "best_category [(cat, names)] = cat"
| "best_category ((cat, names) # d) =
     (if list_all (\<lambda>(c, ns). length ns \<le> length names) d then cat else best_category d)"

definition apply_categorization :: "txn \<Rightarrow> (pystr \<times> pystr list) list \<Rightarrow> txn" where
  "apply_categorization tx categorized =
     (let items_with_amounts = (case t_items_with_amounts tx of Some xs \<Rightarrow> xs | None \<Rightarrow> [])
      in if items_with_amounts \<noteq> [] then
           tx\<lparr>t_splits := t_splits tx @
                 map (item_split (t_is_refund tx) (item_to_category categorized)) items_with_amounts\<rparr>
         else
           (let all_items = (case t_items tx of Some xs \<Rightarrow> xs | None \<Rightarrow> []);
                items_desc = py_join (py '', '') (map (take 25) (take 3 all_items)) @
                             (if length all_items > 3
                              then py '' (+'' @ str_nat (length all_items - 3) @ py '')'' else [])
            in tx\<lparr>t_splits := t_splits tx @
                 [\<lparr>sp_category = best_category categorized, sp_amount = t_amount tx,
                   sp_memo = items_desc, sp_items = all_items\<rparr>]\<rparr>))"

section \<open>Synchronisation (sync_to_ynab.py)\<close>

record subtransaction =
  st_amount :: int
  st_category_id :: "pystr option"
  st_memo :: pystr


text \<open>\<open>int(x)\<close> on a decimal truncates towards zero; \<open>int(Decimal(str(a)) * 1000)\<close> is the
  amount in thousandths.\<close>

definition py_int :: "rat \<Rightarrow> int" where
  "py_int x = (if 0 \<le> x then \<lfloor>x\<rfloor> else \<lceil>x\<rceil>)"

definition milliunits :: "rat \<Rightarrow> int" where
  "milliunits a = py_int (a * 1000)"

definition find_category_id :: "pystr \<Rightarrow> (pystr \<times> pystr) list \<Rightarrow> pystr option" where
  "find_category_id name mapping =
     (if name = [] then None
      else case map_of mapping name of
        Some cat_id \<Rightarrow> Some cat_id
      | None \<Rightarrow>
         (case map_of mapping (lower name) of
            Some cat_id \<Rightarrow> Some cat_id
          | None \<Rightarrow>
             map_option snd
               (find (\<lambda>(cat_name, cat_id). sublist (lower name) (lower cat_name) \<or>
                                          sublist (lower cat_name) (lower name)) mapping)))"

text \<open>\<open>build_subtransactions\<close>, with its correction of the last amount so that the parts
  add up to the parent.\<close>

definition build_subtransactions :: "txn \<Rightarrow> (pystr \<times> pystr) list \<Rightarrow> subtransaction list option" where
  "build_subtransactions tx cat_mapping =
     (if t_splits tx = [] then None
      else
        (let subtransactions =
               map (\<lambda>sp. \<lparr>st_amount = milliunits (sp_amount sp),
                          st_category_id = find_category_id (sp_category sp) cat_mapping,
                          st_memo = take 200 (sp_memo sp)\<rparr>) (t_splits tx);
             rounding_diff = milliunits (t_amount tx) - sum_list (map st_amount subtransactions)
         in Some (if rounding_diff \<noteq> 0
                  then subtransactions[length subtransactions - 1 :=
                         (last subtransactions)\<lparr>st_amount := st_amount (last subtransactions) + rounding_diff\<rparr>]
                  else subtransactions)))"






section \<open>Notions used in the statements\<close>

text \<open>\<open>first_such P xs x\<close>: \<open>x\<close> is the first element of \<open>xs\<close> with \<open>P\<close>.
  \<open>first_least f xs x\<close>: \<open>x\<close> is the first element of \<open>xs\<close> at which \<open>f\<close> is least.\<close>

definition first_such :: "('a \<Rightarrow> bool) \<Rightarrow> 'a list \<Rightarrow> 'a \<Rightarrow> bool" where
  "first_such P xs x \<longleftrightarrow> (\<exists>pre post. xs = pre @ x # post \<and> P x \<and> (\<forall>y\<in>set pre. \<not> P y))"

definition first_least :: "('a \<Rightarrow> rat) \<Rightarrow> 'a list \<Rightarrow> 'a \<Rightarrow> bool" where
  "first_least f xs x \<longleftrightarrow>
     (\<exists>pre post. xs = pre @ x # post \<and> (\<forall>y\<in>set pre. f x < f y) \<and> (\<forall>y\<in>set post. f x \<le> f y))"


definition days_diff :: "int \<Rightarrow> shipment \<Rightarrow> int" where
  "days_diff cd s = (case s_ship_date s of None \<Rightarrow> 0 | Some d \<Rightarrow> cd - d)"


text \<open>The one-item allocation of strategy 3, the record of a charge without a match, and
  the outcomes that carry allocated items.\<close>

definition single_item :: "order_item \<Rightarrow> rat \<Rightarrow> alloc_item" where
  "single_item it amount = \<lparr>a_name = oi_name it, a_base_name = None, a_amount = amount,
                             a_original_total = None, a_qty = None\<rparr>"

definition flagged_no_match :: "txn \<Rightarrow> order_data \<Rightarrow> txn" where
  "flagged_no_match tx od =
     tx\<lparr>t_flag := blue,
        t_memo := py ''Order '' @ t_order_id tx @ py '' - NO SHIPMENT MATCH'',
        t_all_items := Some (map oi_name (o_items od))\<rparr>"

definition itemized :: "outcome \<Rightarrow> bool" where
  "itemized out \<longleftrightarrow>
     (case out of
        Append t \<Rightarrow> truthy_list (t_items_with_amounts t)
      | Queue t base_items \<Rightarrow> truthy_list (t_items_with_amounts t)
      | Skip \<Rightarrow> False
      | Cached \<Rightarrow> False)"



text \<open>\<open>listed res import_id cat item\<close>: the results list \<open>item\<close> under the category \<open>cat\<close>
  for the transaction \<open>import_id\<close>. \<open>item_untouched\<close> is the invariant of the categorizer's
  iterations for an item that the cache answers: no request names it, it is listed as the cached
  passes listed it, and the cache still answers with its category.\<close>

definition listed :: "(pystr \<Rightarrow> (pystr \<times> pystr list) list) \<Rightarrow> pystr \<Rightarrow> pystr \<Rightarrow> pystr \<Rightarrow> bool" where
  "listed res import_id cat item \<longleftrightarrow> (\<exists>names. (cat, names) \<in> set (res import_id) \<and> item \<in> set names)"


section \<open>Properties of the category matching\<close>

lemma find_in_set: "find P xs = Some x \<Longrightarrow> x \<in> set xs"
  by (induction xs) (auto split: if_splits)

text \<open>
  C10. Whenever \<open>match_category\<close> answers \<open>was_matched = True\<close>, the category it returns
  is an element of the list of valid categories; and a text that is already an element of
  the list is returned unchanged with \<open>was_matched = True\<close>.
\<close>

theorem match_category_sound:
  "(snd (match_category cat ynab_categories) \<longrightarrow>
      fst (match_category cat ynab_categories) \<in> set ynab_categories) \<and>
   (cat \<in> set ynab_categories \<longrightarrow> match_category cat ynab_categories = (cat, True))"
  by (auto simp: match_category_def Let_def split: option.splits dest: find_in_set)

theorem match_category_sound_witness:
  "snd (match_category (py ''gear'') [py ''Groceries'', [127890] @ py '' Gear'']) \<and>
   fst (match_category (py ''gear'') [py ''Groceries'', [127890] @ py '' Gear''])
     \<in> set [py ''Groceries'', [127890] @ py '' Gear''] \<and>
   py ''Groceries'' \<in> set [py ''Groceries'', [127890] @ py '' Gear''] \<and>
   match_category (py ''Groceries'') [py ''Groceries'', [127890] @ py '' Gear'']
     = (py ''Groceries'', True)"
proof -
  have matched: "snd (match_category (py ''gear'') [py ''Groceries'', [127890] @ py '' Gear''])"
    by code_simp
  have listed: "py ''Groceries'' \<in> set [py ''Groceries'', [127890] @ py '' Gear'']"
    by simp
  from matched match_category_sound [of "py ''gear''" "[py ''Groceries'', [127890] @ py '' Gear'']"]
  have "fst (match_category (py ''gear'') [py ''Groceries'', [127890] @ py '' Gear''])
          \<in> set [py ''Groceries'', [127890] @ py '' Gear'']"
    by blast
  moreover
  from listed match_category_sound [of "py ''Groceries''" "[py ''Groceries'', [127890] @ py '' Gear'']"]
  have "match_category (py ''Groceries'') [py ''Groceries'', [127890] @ py '' Gear'']
          = (py ''Groceries'', True)"
    by blast
  ultimately show ?thesis
    using matched listed by blast
qed

section \<open>Properties of the date strategy\<close>







section \<open>Properties of the fallback strategies and of the allocation guard\<close>

lemma find_first_such: "find P xs = Some x \<Longrightarrow> first_such P xs x"
proof (induction xs)
  case Nil
  then show ?case by simp
next
  case (Cons a xs)
  show ?case
  proof (cases "P a")
    case True
    with Cons.prems have "x = a" by simp
    with True show ?thesis
      unfolding first_such_def by (intro exI [of _ "[]"] exI [of _ xs]) simp
  next
    case False
    with Cons have "first_such P xs x" by simp
    then obtain pre post where "xs = pre @ x # post" "P x" "\<forall>y\<in>set pre. \<not> P y"
      unfolding first_such_def by blast
    with False have "a # xs = (a # pre) @ x # post \<and> P x \<and> (\<forall>y\<in>set (a # pre). \<not> P y)"
      by simp
    then show ?thesis
      unfolding first_such_def by blast
  qed
qed

lemma first_least_skip:
  assumes "first_least f ss r" and "f r < f s"
  shows "first_least f (s # ss) r"
proof -
  from assms(1) obtain pre post where
    "ss = pre @ r # post" "\<forall>y\<in>set pre. f r < f y" "\<forall>y\<in>set post. f r \<le> f y"
    unfolding first_least_def by blast
  with assms(2) have "s # ss = (s # pre) @ r # post \<and> (\<forall>y\<in>set (s # pre). f r < f y) \<and>
      (\<forall>y\<in>set post. f r \<le> f y)"
    by simp
  then show ?thesis
    unfolding first_least_def by blast
qed

lemma first_least_head:
  assumes "\<forall>y\<in>set ss. f s \<le> f y"
  shows "first_least f (s # ss) s"
  unfolding first_least_def
  using assms by (intro exI [of _ "[]"] exI [of _ ss]) simp

lemma best_fit_loop_inv:
  assumes "(m = None \<and> bd = 999999) \<or> (\<exists>b. m = Some b \<and> bd = amount_diff (s_total b) amount)"
  shows "case best_fit_loop amount ss m bd of
           None \<Rightarrow> m = None \<and> (\<forall>s\<in>set ss. 999999 \<le> amount_diff (s_total s) amount)
         | Some r \<Rightarrow>
             (m = Some r \<and> (\<forall>x\<in>set ss. amount_diff (s_total r) amount \<le> amount_diff (s_total x) amount)) \<or>
             (first_least (\<lambda>s. amount_diff (s_total s) amount) ss r \<and> amount_diff (s_total r) amount < bd)"
  using assms
proof (induction ss arbitrary: m bd)
  case Nil
  then show ?case by (auto split: option.splits)
next
  case (Cons s ss)
  show ?case
  proof (cases "amount_diff (s_total s) amount < bd")
    case True
    then have step: "best_fit_loop amount (s # ss) m bd =
        best_fit_loop amount ss (Some s) (amount_diff (s_total s) amount)"
      by (simp add: Let_def)
    have "(Some s = None \<and> amount_diff (s_total s) amount = 999999) \<or>
          (\<exists>b. Some s = Some b \<and> amount_diff (s_total s) amount = amount_diff (s_total b) amount)"
      by simp
    from Cons.IH [OF this] show ?thesis
      unfolding step using True
      by (auto split: option.splits intro: first_least_skip first_least_head)
  next
    case False
    then have step: "best_fit_loop amount (s # ss) m bd = best_fit_loop amount ss m bd"
      by (simp add: Let_def)
    from Cons.IH [OF Cons.prems] show ?thesis
      unfolding step using False Cons.prems
      by (auto split: option.splits intro!: first_least_skip)
  qed
qed

lemma best_fit_None:
  "best_fit_loop amount ss None 999999 = None \<longleftrightarrow> (\<forall>s\<in>set ss. 999999 \<le> amount_diff (s_total s) amount)"
proof
  assume "best_fit_loop amount ss None 999999 = None"
  with best_fit_loop_inv [of None 999999 amount ss]
  show "\<forall>s\<in>set ss. 999999 \<le> amount_diff (s_total s) amount" by simp
next
  assume all: "\<forall>s\<in>set ss. 999999 \<le> amount_diff (s_total s) amount"
  show "best_fit_loop amount ss None 999999 = None"
  proof (cases "best_fit_loop amount ss None 999999")
    case None
    then show ?thesis .
  next
    case (Some r)
    with best_fit_loop_inv [of None 999999 amount ss]
    have "first_least (\<lambda>s. amount_diff (s_total s) amount) ss r" "amount_diff (s_total r) amount < 999999"
      by simp_all
    moreover from this(1) have "r \<in> set ss"
      unfolding first_least_def by auto
    ultimately show ?thesis using all by force
  qed
qed

lemma best_fit_Some:
  "best_fit_loop amount ss None 999999 = Some r \<Longrightarrow>
     first_least (\<lambda>s. amount_diff (s_total s) amount) ss r \<and> amount_diff (s_total r) amount < 999999"
  using best_fit_loop_inv [of None 999999 amount ss] by simp

lemma match_shipment_items_None:
  "match_shipment cd amount shipments all_items = (Some s, mi) \<Longrightarrow> mi = None"
  by (auto simp: match_shipment_def Let_def split: option.splits if_splits)


lemma cascade_amount:
  assumes "date_match cd shipments = None"
    and "find (\<lambda>s. amount_diff (s_total s) amount < 1) shipments = Some s"
  shows "match_shipment cd amount shipments all_items = (Some s, None)"
  using assms by (simp add: match_shipment_def)

lemma cascade_item:
  assumes "date_match cd shipments = None"
    and "find (\<lambda>s. amount_diff (s_total s) amount < 1) shipments = None"
    and "find (\<lambda>it. amount_diff (oi_total it) amount < 1) all_items = Some it"
  shows "match_shipment cd amount shipments all_items = (None, Some [single_item it amount])"
  using assms by (simp add: match_shipment_def single_item_def)

lemma cascade_best:
  assumes "date_match cd shipments = None"
    and "find (\<lambda>s. amount_diff (s_total s) amount < 1) shipments = None"
    and "find (\<lambda>it. amount_diff (oi_total it) amount < 1) all_items = None"
  shows "match_shipment cd amount shipments all_items = (best_fit_loop amount shipments None 999999, None)"
  using assms by (simp add: match_shipment_def)

lemma allocate_None: "allocate amount s = None \<longleftrightarrow> s_total s \<le> 0"
  by (auto simp: allocate_def Let_def)

lemma allocate_truthy: "truthy_list (allocate amount s) \<longleftrightarrow> 0 < s_total s \<and> s_items s \<noteq> []"
  by (auto simp: allocate_def Let_def)

lemma process_found_unmatched:
  assumes "\<not> sublist (py ''amazon tips'') (lower payee)"
    and "match_shipment cd amount (o_shipments od) (o_items od) = (ms, mi)"
    and "case ms of Some s \<Rightarrow> \<not> (0 < s_total s \<and> s_items s \<noteq> []) | None \<Rightarrow> \<not> truthy_list mi"
  shows "process_found tx payee amount cd od = Append (flagged_no_match tx od)"
proof (cases ms)
  case None
  with assms show ?thesis
    by (simp add: process_found_def flagged_no_match_def)
next
  case (Some s)
  with assms(2) have "mi = None" by (simp add: match_shipment_items_None)
  with Some assms show ?thesis
    by (simp add: process_found_def flagged_no_match_def allocate_truthy)
qed

lemma process_found_itemized:
  assumes "\<not> sublist (py ''amazon tips'') (lower payee)"
    and "match_shipment cd amount (o_shipments od) (o_items od) = (ms, mi)"
    and "case ms of Some s \<Rightarrow> 0 < s_total s \<and> s_items s \<noteq> [] | None \<Rightarrow> truthy_list mi"
  shows "itemized (process_found tx payee amount cd od)"
proof (cases ms)
  case None
  with assms show ?thesis
    by (cases mi) (simp_all add: process_found_def itemized_def Let_def)
next
  case (Some s)
  with assms(2) have "mi = None" by (simp add: match_shipment_items_None)
  moreover from Some assms(3) have "truthy_list (allocate amount s)"
    by (simp add: allocate_truthy)
  ultimately show ?thesis
    using Some assms(1,2)
    by (cases "allocate amount s") (simp_all add: process_found_def itemized_def Let_def)
qed

text \<open>
  C3, as the code has it. When no shipment matches by date proximity, the matcher selects
  the first shipment with \<open>abs(shipment.total - abs(amount)) < 1\<close>; failing that, the first
  order item within the same tolerance, as a one-item allocation that carries the signed
  charge amount; failing that, the first shipment at which
  \<open>abs(shipment.total - abs(amount))\<close> is least, provided that this difference is below
  999999, the initial value of \<open>best_diff\<close>, and no shipment when every difference is
  999999 or more. A charge that is not a tip is itemized when an item was selected or the
  selected shipment has a positive total and at least one item; in every other case it is
  emitted with the blue flag and the memo \<open>NO SHIPMENT MATCH\<close>.
\<close>

theorem fallback_cascade:
  assumes nodate: "date_match cd (o_shipments od) = None"
  shows
  "((\<exists>s\<in>set (o_shipments od). amount_diff (s_total s) amount < 1) \<longrightarrow>
      (\<exists>s. match_shipment cd amount (o_shipments od) (o_items od) = (Some s, None) \<and>
           first_such (\<lambda>s. amount_diff (s_total s) amount < 1) (o_shipments od) s)) \<and>
   ((\<forall>s\<in>set (o_shipments od). \<not> amount_diff (s_total s) amount < 1) \<and>
    (\<exists>it\<in>set (o_items od). amount_diff (oi_total it) amount < 1) \<longrightarrow>
      (\<exists>it. match_shipment cd amount (o_shipments od) (o_items od) = (None, Some [single_item it amount]) \<and>
            first_such (\<lambda>it. amount_diff (oi_total it) amount < 1) (o_items od) it)) \<and>
   ((\<forall>s\<in>set (o_shipments od). \<not> amount_diff (s_total s) amount < 1) \<and>
    (\<forall>it\<in>set (o_items od). \<not> amount_diff (oi_total it) amount < 1) \<longrightarrow>
      ((\<exists>s\<in>set (o_shipments od). amount_diff (s_total s) amount < 999999) \<longrightarrow>
         (\<exists>s. match_shipment cd amount (o_shipments od) (o_items od) = (Some s, None) \<and>
              first_least (\<lambda>s. amount_diff (s_total s) amount) (o_shipments od) s)) \<and>
      ((\<forall>s\<in>set (o_shipments od). 999999 \<le> amount_diff (s_total s) amount) \<longrightarrow>
         match_shipment cd amount (o_shipments od) (o_items od) = (None, None))) \<and>
   (\<not> sublist (py ''amazon tips'') (lower payee) \<longrightarrow>
      (case match_shipment cd amount (o_shipments od) (o_items od) of
         (Some s, mi) \<Rightarrow>
           if 0 < s_total s \<and> s_items s \<noteq> [] then itemized (process_found tx payee amount cd od)
           else process_found tx payee amount cd od = Append (flagged_no_match tx od)
       | (None, mi) \<Rightarrow>
           if truthy_list mi then itemized (process_found tx payee amount cd od)
           else process_found tx payee amount cd od = Append (flagged_no_match tx od)))"
proof -
  let ?P = "\<lambda>s. amount_diff (s_total s) amount < 1"
  let ?Q = "\<lambda>it. amount_diff (oi_total it) amount < 1"
  let ?m = "match_shipment cd amount (o_shipments od) (o_items od)"
  have a: "(\<exists>s\<in>set (o_shipments od). ?P s) \<longrightarrow>
      (\<exists>s. ?m = (Some s, None) \<and> first_such ?P (o_shipments od) s)"
  proof
    assume "\<exists>s\<in>set (o_shipments od). ?P s"
    then obtain s where f: "find ?P (o_shipments od) = Some s"
      by (cases "find ?P (o_shipments od)") (auto simp: find_None_iff)
    from cascade_amount [OF nodate f] find_first_such [OF f]
    show "\<exists>s. ?m = (Some s, None) \<and> first_such ?P (o_shipments od) s" by blast
  qed
  have b: "(\<forall>s\<in>set (o_shipments od). \<not> ?P s) \<and> (\<exists>it\<in>set (o_items od). ?Q it) \<longrightarrow>
      (\<exists>it. ?m = (None, Some [single_item it amount]) \<and> first_such ?Q (o_items od) it)"
  proof
    assume h: "(\<forall>s\<in>set (o_shipments od). \<not> ?P s) \<and> (\<exists>it\<in>set (o_items od). ?Q it)"
    then have n: "find ?P (o_shipments od) = None"
      by (simp add: find_None_iff)
    from h obtain it where f: "find ?Q (o_items od) = Some it"
      by (cases "find ?Q (o_items od)") (auto simp: find_None_iff)
    from cascade_item [OF nodate n f] find_first_such [OF f]
    show "\<exists>it. ?m = (None, Some [single_item it amount]) \<and> first_such ?Q (o_items od) it" by blast
  qed
  have c: "(\<forall>s\<in>set (o_shipments od). \<not> ?P s) \<and> (\<forall>it\<in>set (o_items od). \<not> ?Q it) \<longrightarrow>
      ((\<exists>s\<in>set (o_shipments od). amount_diff (s_total s) amount < 999999) \<longrightarrow>
         (\<exists>s. ?m = (Some s, None) \<and>
              first_least (\<lambda>s. amount_diff (s_total s) amount) (o_shipments od) s)) \<and>
      ((\<forall>s\<in>set (o_shipments od). 999999 \<le> amount_diff (s_total s) amount) \<longrightarrow> ?m = (None, None))"
  proof
    assume h: "(\<forall>s\<in>set (o_shipments od). \<not> ?P s) \<and> (\<forall>it\<in>set (o_items od). \<not> ?Q it)"
    then have n: "find ?P (o_shipments od) = None" and n': "find ?Q (o_items od) = None"
      by (simp_all add: find_None_iff)
    note m = cascade_best [OF nodate n n']
    have "(\<exists>s\<in>set (o_shipments od). amount_diff (s_total s) amount < 999999) \<longrightarrow>
         (\<exists>s. ?m = (Some s, None) \<and>
              first_least (\<lambda>s. amount_diff (s_total s) amount) (o_shipments od) s)"
    proof
      assume "\<exists>s\<in>set (o_shipments od). amount_diff (s_total s) amount < 999999"
      then have "best_fit_loop amount (o_shipments od) None 999999 \<noteq> None"
        unfolding best_fit_None by force
      then obtain r where r: "best_fit_loop amount (o_shipments od) None 999999 = Some r"
        by blast
      from best_fit_Some [OF r] m r
      show "\<exists>s. ?m = (Some s, None) \<and>
              first_least (\<lambda>s. amount_diff (s_total s) amount) (o_shipments od) s"
        by auto
    qed
    moreover have "(\<forall>s\<in>set (o_shipments od). 999999 \<le> amount_diff (s_total s) amount) \<longrightarrow>
        ?m = (None, None)"
      using m by (simp add: best_fit_None)
    ultimately show "((\<exists>s\<in>set (o_shipments od). amount_diff (s_total s) amount < 999999) \<longrightarrow>
         (\<exists>s. ?m = (Some s, None) \<and>
              first_least (\<lambda>s. amount_diff (s_total s) amount) (o_shipments od) s)) \<and>
      ((\<forall>s\<in>set (o_shipments od). 999999 \<le> amount_diff (s_total s) amount) \<longrightarrow> ?m = (None, None))"
      by blast
  qed
  have d: "\<not> sublist (py ''amazon tips'') (lower payee) \<longrightarrow>
      (case ?m of
         (Some s, mi) \<Rightarrow>
           if 0 < s_total s \<and> s_items s \<noteq> [] then itemized (process_found tx payee amount cd od)
           else process_found tx payee amount cd od = Append (flagged_no_match tx od)
       | (None, mi) \<Rightarrow>
           if truthy_list mi then itemized (process_found tx payee amount cd od)
           else process_found tx payee amount cd od = Append (flagged_no_match tx od))"
  proof
    assume notip: "\<not> sublist (py ''amazon tips'') (lower payee)"
    obtain ms mi where m: "?m = (ms, mi)" by (cases ?m)
    show "case ?m of
         (Some s, mi) \<Rightarrow>
           if 0 < s_total s \<and> s_items s \<noteq> [] then itemized (process_found tx payee amount cd od)
           else process_found tx payee amount cd od = Append (flagged_no_match tx od)
       | (None, mi) \<Rightarrow>
           if truthy_list mi then itemized (process_found tx payee amount cd od)
           else process_found tx payee amount cd od = Append (flagged_no_match tx od)"
      using process_found_unmatched [OF notip m, of tx] process_found_itemized [OF notip m, of tx]
      by (cases ms) (simp_all add: m)
  qed
  from a b c d show ?thesis by blast
qed

text \<open>A concrete run of the cascade: no date, no shipment and no item within one unit of
  the charge of 140, so the best fit picks the shipment of 120 and the charge is itemized.\<close>

theorem fallback_cascade_witness:
  "date_match None (o_shipments \<lparr>o_shipments = [\<lparr>s_ship_date = None, s_total = 120,
        s_items = [\<lparr>si_name = py ''Item A'', si_total = 120, si_qty = 1\<rparr>], s_is_grocery = False\<rparr>,
       \<lparr>s_ship_date = None, s_total = 80,
        s_items = [\<lparr>si_name = py ''Item B'', si_total = 80, si_qty = 1\<rparr>], s_is_grocery = False\<rparr>],
       o_items = [\<lparr>oi_name = py ''Item A'', oi_total = 120\<rparr>, \<lparr>oi_name = py ''Item B'', oi_total = 80\<rparr>],
       o_is_grocery = False\<rparr>) = None \<and>
   \<not> amount_diff 120 (- 140) < 1 \<and> \<not> amount_diff 80 (- 140) < 1 \<and>
   amount_diff 120 (- 140) < 999999 \<and>
   \<not> sublist (py ''amazon tips'') (lower (py ''Amazon.com'')) \<and>
   match_shipment None (- 140) (o_shipments \<lparr>o_shipments = [\<lparr>s_ship_date = None, s_total = 120,
        s_items = [\<lparr>si_name = py ''Item A'', si_total = 120, si_qty = 1\<rparr>], s_is_grocery = False\<rparr>,
       \<lparr>s_ship_date = None, s_total = 80,
        s_items = [\<lparr>si_name = py ''Item B'', si_total = 80, si_qty = 1\<rparr>], s_is_grocery = False\<rparr>],
       o_items = [\<lparr>oi_name = py ''Item A'', oi_total = 120\<rparr>, \<lparr>oi_name = py ''Item B'', oi_total = 80\<rparr>],
       o_is_grocery = False\<rparr>) (o_items \<lparr>o_shipments = [\<lparr>s_ship_date = None, s_total = 120,
        s_items = [\<lparr>si_name = py ''Item A'', si_total = 120, si_qty = 1\<rparr>], s_is_grocery = False\<rparr>,
       \<lparr>s_ship_date = None, s_total = 80,
        s_items = [\<lparr>si_name = py ''Item B'', si_total = 80, si_qty = 1\<rparr>], s_is_grocery = False\<rparr>],
       o_items = [\<lparr>oi_name = py ''Item A'', oi_total = 120\<rparr>, \<lparr>oi_name = py ''Item B'', oi_total = 80\<rparr>],
       o_is_grocery = False\<rparr>) = (Some \<lparr>s_ship_date = None, s_total = 120,
        s_items = [\<lparr>si_name = py ''Item A'', si_total = 120, si_qty = 1\<rparr>], s_is_grocery = False\<rparr>, None) \<and>
   first_least (\<lambda>s. amount_diff (s_total s) (- 140)) (o_shipments \<lparr>o_shipments = [\<lparr>s_ship_date = None, s_total = 120,
        s_items = [\<lparr>si_name = py ''Item A'', si_total = 120, si_qty = 1\<rparr>], s_is_grocery = False\<rparr>,
       \<lparr>s_ship_date = None, s_total = 80,
        s_items = [\<lparr>si_name = py ''Item B'', si_total = 80, si_qty = 1\<rparr>], s_is_grocery = False\<rparr>],
       o_items = [\<lparr>oi_name = py ''Item A'', oi_total = 120\<rparr>, \<lparr>oi_name = py ''Item B'', oi_total = 80\<rparr>],
       o_is_grocery = False\<rparr>) \<lparr>s_ship_date = None, s_total = 120,
        s_items = [\<lparr>si_name = py ''Item A'', si_total = 120, si_qty = 1\<rparr>], s_is_grocery = False\<rparr> \<and>
   itemized (process_found \<lparr>t_import_id = py ''AMZ2:111-0000000-0000001:14000:P'', t_date = py ''2024-01-11'',
       t_order_id = py ''111-0000000-0000001'', t_amount = - 140, t_payee = py ''Amazon.com'',
       t_memo = py ''Order 111-0000000-0000001'', t_is_refund = False, t_is_grocery = False,
       t_flag = yellow, t_splits = [], t_items = None, t_items_with_amounts = None,
       t_grocery_items = None, t_all_items = None\<rparr> (py ''Amazon.com'') (- 140) None \<lparr>o_shipments = [\<lparr>s_ship_date = None, s_total = 120,
        s_items = [\<lparr>si_name = py ''Item A'', si_total = 120, si_qty = 1\<rparr>], s_is_grocery = False\<rparr>,
       \<lparr>s_ship_date = None, s_total = 80,
        s_items = [\<lparr>si_name = py ''Item B'', si_total = 80, si_qty = 1\<rparr>], s_is_grocery = False\<rparr>],
       o_items = [\<lparr>oi_name = py ''Item A'', oi_total = 120\<rparr>, \<lparr>oi_name = py ''Item B'', oi_total = 80\<rparr>],
       o_is_grocery = False\<rparr>)"
proof -
  define sa where "sa = \<lparr>s_ship_date = None, s_total = 120,
        s_items = [\<lparr>si_name = py ''Item A'', si_total = 120, si_qty = 1\<rparr>], s_is_grocery = False\<rparr>"
  define sb where "sb = \<lparr>s_ship_date = None, s_total = 80,
        s_items = [\<lparr>si_name = py ''Item B'', si_total = 80, si_qty = 1\<rparr>], s_is_grocery = False\<rparr>"
  define od where "od = \<lparr>o_shipments = [sa, sb],
       o_items = [\<lparr>oi_name = py ''Item A'', oi_total = 120\<rparr>, \<lparr>oi_name = py ''Item B'', oi_total = 80\<rparr>],
       o_is_grocery = False\<rparr>"
  define tx where "tx = \<lparr>t_import_id = py ''AMZ2:111-0000000-0000001:14000:P'', t_date = py ''2024-01-11'',
       t_order_id = py ''111-0000000-0000001'', t_amount = - 140, t_payee = py ''Amazon.com'',
       t_memo = py ''Order 111-0000000-0000001'', t_is_refund = False, t_is_grocery = False,
       t_flag = yellow, t_splits = [], t_items = None, t_items_with_amounts = None,
       t_grocery_items = None, t_all_items = None\<rparr>"
  have nodate: "date_match None (o_shipments od) = None"
    by (simp add: date_match_def)
  have far: "\<not> amount_diff 120 (- 140) < 1" "\<not> amount_diff 80 (- 140) < 1"
    by (simp_all add: amount_diff_def)
  have near: "amount_diff 120 (- 140) < 999999"
    by (simp add: amount_diff_def)
  have noship: "\<forall>s\<in>set (o_shipments od). \<not> amount_diff (s_total s) (- 140) < 1"
    using far by (simp add: od_def sa_def sb_def)
  have noitem: "\<forall>it\<in>set (o_items od). \<not> amount_diff (oi_total it) (- 140) < 1"
    using far by (simp add: od_def)
  have some: "\<exists>s\<in>set (o_shipments od). amount_diff (s_total s) (- 140) < 999999"
    using near by (simp add: od_def sa_def)
  have notip: "\<not> sublist (py ''amazon tips'') (lower (py ''Amazon.com''))"
    by code_simp
  have matched: "match_shipment None (- 140) (o_shipments od) (o_items od) = (Some sa, None)"
    unfolding od_def sa_def sb_def by code_simp
  have pos: "0 < s_total sa \<and> s_items sa \<noteq> []"
    unfolding sa_def by simp
  from fallback_cascade [OF nodate, of "- 140" "py ''Amazon.com''" tx]
    noship noitem some notip matched pos
  have "first_least (\<lambda>s. amount_diff (s_total s) (- 140)) (o_shipments od) sa \<and>
        itemized (process_found tx (py ''Amazon.com'') (- 140) None od)"
    by auto
  with nodate far near notip matched
  have "date_match None (o_shipments od) = None \<and>
   \<not> amount_diff 120 (- 140) < 1 \<and> \<not> amount_diff 80 (- 140) < 1 \<and>
   amount_diff 120 (- 140) < 999999 \<and>
   \<not> sublist (py ''amazon tips'') (lower (py ''Amazon.com'')) \<and>
   match_shipment None (- 140) (o_shipments od) (o_items od) = (Some sa, None) \<and>
   first_least (\<lambda>s. amount_diff (s_total s) (- 140)) (o_shipments od) sa \<and>
   itemized (process_found tx (py ''Amazon.com'') (- 140) None od)"
    by blast
  then show ?thesis
    unfolding od_def tx_def sa_def sb_def .
qed

text \<open>The claim as the specification words it fails twice: an order whose only shipment
  has the total 0 is selected by the best fit and then emitted as \<open>NO SHIPMENT MATCH\<close>;
  and a shipment whose total differs from the charge by 999999 or more is not selected at
  all.\<close>

theorem fallback_cascade_counterexample:
  "load_order_history
     [\<lparr>ri_order_id = py ''111-0000000-0000001'', ri_name = py ''Free sample'', ri_total = 0,
       ri_ship_date = None, ri_quantity = 1, ri_shipping_option = py ''standard''\<rparr>]
     (py ''111-0000000-0000001'') =
   Some \<lparr>o_shipments = [\<lparr>s_ship_date = None, s_total = 0,
                          s_items = [\<lparr>si_name = py ''Free sample'', si_total = 0, si_qty = 1\<rparr>],
                          s_is_grocery = False\<rparr>],
         o_items = [\<lparr>oi_name = py ''Free sample'', oi_total = 0\<rparr>],
         o_is_grocery = False\<rparr> \<and>
   process_row {}
     (load_order_history
        [\<lparr>ri_order_id = py ''111-0000000-0000001'', ri_name = py ''Free sample'', ri_total = 0,
          ri_ship_date = None, ri_quantity = 1, ri_shipping_option = py ''standard''\<rparr>])
     \<lparr>r_date = py ''pending'', r_parsed_date = None, r_payee = py ''Amazon.com'',
      r_order_id = Some (py ''111-0000000-0000001''), r_outflow = Parsed 5, r_inflow = Blank\<rparr> =
   Append \<lparr>t_import_id = py ''AMZ2:111-0000000-0000001:500:P'', t_date = py ''pending'',
           t_order_id = py ''111-0000000-0000001'', t_amount = - 5, t_payee = py ''Amazon.com'',
           t_memo = py ''Order 111-0000000-0000001 - NO SHIPMENT MATCH'',
           t_is_refund = False, t_is_grocery = False, t_flag = blue, t_splits = [],
           t_items = None, t_items_with_amounts = None, t_grocery_items = None,
           t_all_items = Some [py ''Free sample'']\<rparr> \<and>
   match_shipment None (- (1 / 2))
     [\<lparr>s_ship_date = None, s_total = 1000000,
       s_items = [\<lparr>si_name = py ''Server rack'', si_total = 1000000, si_qty = 1\<rparr>],
       s_is_grocery = False\<rparr>]
     [\<lparr>oi_name = py ''Server rack'', oi_total = 1000000\<rparr>] = (None, None)"
  by code_simp

text \<open>
  C4, as the code has it. For every charge matched to a shipment whose total is zero (or
  negative), the allocation returns without a result: no item is allocated an amount, and
  the charge is emitted with the blue flag, the memo \<open>NO SHIPMENT MATCH\<close> and the names of
  all items of the order; its splits and allocated items stay as they were (empty).
\<close>

theorem zero_total_flagged:
  assumes "\<not> sublist (py ''amazon tips'') (lower payee)"
    and "match_shipment cd amount (o_shipments od) (o_items od) = (Some s, mi)"
    and "s_total s \<le> 0"
  shows "allocate amount s = None \<and>
         process_found tx payee amount cd od = Append (flagged_no_match tx od) \<and>
         t_splits (flagged_no_match tx od) = t_splits tx \<and>
         t_items_with_amounts (flagged_no_match tx od) = t_items_with_amounts tx"
  using assms process_found_unmatched [OF assms(1,2), of tx]
  by (simp add: allocate_None flagged_no_match_def)

theorem zero_total_flagged_witness:
  "\<not> sublist (py ''amazon tips'') (lower (py ''Amazon.com'')) \<and>
   match_shipment (Some 101) (- 5)
     (o_shipments \<lparr>o_shipments = [\<lparr>s_ship_date = Some 100, s_total = 0,
        s_items = [\<lparr>si_name = py ''Free sample'', si_total = 0, si_qty = 1\<rparr>],
        s_is_grocery = False\<rparr>],
       o_items = [\<lparr>oi_name = py ''Free sample'', oi_total = 0\<rparr>], o_is_grocery = False\<rparr>)
     (o_items \<lparr>o_shipments = [\<lparr>s_ship_date = Some 100, s_total = 0,
        s_items = [\<lparr>si_name = py ''Free sample'', si_total = 0, si_qty = 1\<rparr>],
        s_is_grocery = False\<rparr>],
       o_items = [\<lparr>oi_name = py ''Free sample'', oi_total = 0\<rparr>], o_is_grocery = False\<rparr>) =
     (Some \<lparr>s_ship_date = Some 100, s_total = 0,
        s_items = [\<lparr>si_name = py ''Free sample'', si_total = 0, si_qty = 1\<rparr>],
        s_is_grocery = False\<rparr>, None) \<and>
   s_total \<lparr>s_ship_date = Some 100, s_total = 0,
        s_items = [\<lparr>si_name = py ''Free sample'', si_total = 0, si_qty = 1\<rparr>],
        s_is_grocery = False\<rparr> \<le> 0 \<and>
   allocate (- 5) \<lparr>s_ship_date = Some 100, s_total = 0,
        s_items = [\<lparr>si_name = py ''Free sample'', si_total = 0, si_qty = 1\<rparr>],
        s_is_grocery = False\<rparr> = None \<and>
   process_found \<lparr>t_import_id = py ''AMZ2:111-0000000-0000001:500:P'', t_date = py ''2024-01-11'',
       t_order_id = py ''111-0000000-0000001'', t_amount = - 5, t_payee = py ''Amazon.com'',
       t_memo = py ''Order 111-0000000-0000001'', t_is_refund = False, t_is_grocery = False,
       t_flag = yellow, t_splits = [], t_items = None, t_items_with_amounts = None,
       t_grocery_items = None, t_all_items = None\<rparr> (py ''Amazon.com'') (- 5) (Some 101) \<lparr>o_shipments = [\<lparr>s_ship_date = Some 100, s_total = 0,
        s_items = [\<lparr>si_name = py ''Free sample'', si_total = 0, si_qty = 1\<rparr>],
        s_is_grocery = False\<rparr>],
       o_items = [\<lparr>oi_name = py ''Free sample'', oi_total = 0\<rparr>], o_is_grocery = False\<rparr> =
     Append (flagged_no_match \<lparr>t_import_id = py ''AMZ2:111-0000000-0000001:500:P'', t_date = py ''2024-01-11'',
       t_order_id = py ''111-0000000-0000001'', t_amount = - 5, t_payee = py ''Amazon.com'',
       t_memo = py ''Order 111-0000000-0000001'', t_is_refund = False, t_is_grocery = False,
       t_flag = yellow, t_splits = [], t_items = None, t_items_with_amounts = None,
       t_grocery_items = None, t_all_items = None\<rparr> \<lparr>o_shipments = [\<lparr>s_ship_date = Some 100, s_total = 0,
        s_items = [\<lparr>si_name = py ''Free sample'', si_total = 0, si_qty = 1\<rparr>],
        s_is_grocery = False\<rparr>],
       o_items = [\<lparr>oi_name = py ''Free sample'', oi_total = 0\<rparr>], o_is_grocery = False\<rparr>)"
proof -
  have notip: "\<not> sublist (py ''amazon tips'') (lower (py ''Amazon.com''))"
    by code_simp
  have matched: "match_shipment (Some 101) (- 5)
     (o_shipments \<lparr>o_shipments = [\<lparr>s_ship_date = Some 100, s_total = 0,
        s_items = [\<lparr>si_name = py ''Free sample'', si_total = 0, si_qty = 1\<rparr>],
        s_is_grocery = False\<rparr>],
       o_items = [\<lparr>oi_name = py ''Free sample'', oi_total = 0\<rparr>], o_is_grocery = False\<rparr>)
     (o_items \<lparr>o_shipments = [\<lparr>s_ship_date = Some 100, s_total = 0,
        s_items = [\<lparr>si_name = py ''Free sample'', si_total = 0, si_qty = 1\<rparr>],
        s_is_grocery = False\<rparr>],
       o_items = [\<lparr>oi_name = py ''Free sample'', oi_total = 0\<rparr>], o_is_grocery = False\<rparr>) =
     (Some \<lparr>s_ship_date = Some 100, s_total = 0,
        s_items = [\<lparr>si_name = py ''Free sample'', si_total = 0, si_qty = 1\<rparr>],
        s_is_grocery = False\<rparr>, None)"
    by code_simp
  have zero: "s_total \<lparr>s_ship_date = Some 100, s_total = 0,
        s_items = [\<lparr>si_name = py ''Free sample'', si_total = 0, si_qty = 1\<rparr>],
        s_is_grocery = False\<rparr> \<le> 0"
    by simp
  from zero_total_flagged [OF notip matched zero, of "\<lparr>t_import_id = py ''AMZ2:111-0000000-0000001:500:P'', t_date = py ''2024-01-11'',
       t_order_id = py ''111-0000000-0000001'', t_amount = - 5, t_payee = py ''Amazon.com'',
       t_memo = py ''Order 111-0000000-0000001'', t_is_refund = False, t_is_grocery = False,
       t_flag = yellow, t_splits = [], t_items = None, t_items_with_amounts = None,
       t_grocery_items = None, t_all_items = None\<rparr>"] notip matched zero
  show ?thesis by simp
qed

text \<open>The claim as the specification words it fails: the free sample is matched by date,
  and the charge is flagged instead of allocating the item its own total.\<close>

theorem zero_total_counterexample:
  "fst (match_shipment (Some 101) (- 5)
     [\<lparr>s_ship_date = Some 100, s_total = 0,
       s_items = [\<lparr>si_name = py ''Free sample'', si_total = 0, si_qty = 1\<rparr>],
       s_is_grocery = False\<rparr>]
     [\<lparr>oi_name = py ''Free sample'', oi_total = 0\<rparr>]) =
   Some \<lparr>s_ship_date = Some 100, s_total = 0,
         s_items = [\<lparr>si_name = py ''Free sample'', si_total = 0, si_qty = 1\<rparr>],
         s_is_grocery = False\<rparr> \<and>
   process_row {}
     (load_order_history
        [\<lparr>ri_order_id = py ''111-0000000-0000001'', ri_name = py ''Free sample'', ri_total = 0,
          ri_ship_date = Some 100, ri_quantity = 1, ri_shipping_option = py ''standard''\<rparr>])
     \<lparr>r_date = py ''2024-01-11'', r_parsed_date = Some (py ''2024-01-11'', 101),
      r_payee = py ''Amazon.com'', r_order_id = Some (py ''111-0000000-0000001''),
      r_outflow = Parsed 5, r_inflow = Blank\<rparr> =
   Append \<lparr>t_import_id = py ''AMZ2:111-0000000-0000001:500:P'', t_date = py ''2024-01-11'',
           t_order_id = py ''111-0000000-0000001'', t_amount = - 5, t_payee = py ''Amazon.com'',
           t_memo = py ''Order 111-0000000-0000001 - NO SHIPMENT MATCH'',
           t_is_refund = False, t_is_grocery = False, t_flag = blue, t_splits = [],
           t_items = None, t_items_with_amounts = None, t_grocery_items = None,
           t_all_items = Some [py ''Free sample'']\<rparr>"
  by code_simp

section \<open>Properties of grocery orders\<close>












lemma new_txn_fields:
  "t_items_with_amounts (new_txn r order_id amount) = None"
  "t_amount (new_txn r order_id amount) = amount"
  "t_is_refund (new_txn r order_id amount) = (r_inflow r \<noteq> Blank)"
  "t_import_id (new_txn r order_id amount) = import_id_of order_id amount (r_inflow r \<noteq> Blank)"
  "t_flag (new_txn r order_id amount) = yellow"
  "t_splits (new_txn r order_id amount) = []"
  by (simp_all add: new_txn_def Let_def)






section \<open>Properties of the tip detection\<close>

lemma tip_is_amazon:
  assumes "sublist (py ''amazon tips'') (lower payee)"
  shows "is_amazon_transaction payee"
proof -
  have "sublist (py ''amazon'') (py ''amazon tips'')"
    by code_simp
  from this assms have "sublist (py ''amazon'') (lower payee)"
    by (rule sublist_order.order.trans)
  moreover from assms have "payee \<noteq> []"
    by (auto simp: lower_def py_def)
  ultimately show ?thesis
    by (simp add: is_amazon_transaction_def)
qed

text \<open>
  C6, as the code has it. For every charge that carries the tip signal in its payee text,
  whose import id is not yet in the cache file and whose order id is found in the order
  history, the loop body emits the transaction with a single split of the fixed category
  \<open>Delivery Fee\<close>, the memo \<open>Delivery Tip\<close> and no items, whatever the order holds: the
  tip check comes after the cache check and the order lookup, and before shipment matching,
  grocery handling and the no-shipment-match case.
\<close>

theorem tip_single_split:
  assumes tip: "sublist (py ''amazon tips'') (lower (r_payee r))"
    and oid: "r_order_id r = Some order_id" "order_id \<noteq> []"
    and amt: "parse_amount (r_inflow r) (r_outflow r) = Some amount"
    and new: "import_id_of order_id amount (r_inflow r \<noteq> Blank) \<notin> existing_ids"
    and found: "order_history order_id = Some od"
  shows "process_row existing_ids order_history r =
     Append ((new_txn r order_id amount)
       \<lparr>t_memo := py ''Delivery Tip'',
        t_splits := [\<lparr>sp_category = py ''Delivery Fee'',
                      sp_amount = signed_amount (r_inflow r \<noteq> Blank) amount,
                      sp_memo = py ''Delivery Tip'', sp_items = []\<rparr>],
        t_items := Some [], t_items_with_amounts := Some []\<rparr>)"
  using assms tip_is_amazon [OF tip]
  by (simp add: process_row_def process_found_def new_txn_fields)

theorem tip_single_split_witness:
  "sublist (py ''amazon tips'') (lower (r_payee \<lparr>r_date = py ''2023-12-04'', r_parsed_date = Some (py ''2023-12-04'', 50),
       r_payee = py ''Amazon Tips'', r_order_id = Some (py ''111-4811339-2368245''),
       r_outflow = Parsed 10, r_inflow = Blank\<rparr>)) \<and>
   r_order_id \<lparr>r_date = py ''2023-12-04'', r_parsed_date = Some (py ''2023-12-04'', 50),
       r_payee = py ''Amazon Tips'', r_order_id = Some (py ''111-4811339-2368245''),
       r_outflow = Parsed 10, r_inflow = Blank\<rparr> = Some (py ''111-4811339-2368245'') \<and>
   py ''111-4811339-2368245'' \<noteq> [] \<and>
   parse_amount (r_inflow \<lparr>r_date = py ''2023-12-04'', r_parsed_date = Some (py ''2023-12-04'', 50),
       r_payee = py ''Amazon Tips'', r_order_id = Some (py ''111-4811339-2368245''),
       r_outflow = Parsed 10, r_inflow = Blank\<rparr>) (r_outflow \<lparr>r_date = py ''2023-12-04'', r_parsed_date = Some (py ''2023-12-04'', 50),
       r_payee = py ''Amazon Tips'', r_order_id = Some (py ''111-4811339-2368245''),
       r_outflow = Parsed 10, r_inflow = Blank\<rparr>) = Some (- 10) \<and>
   import_id_of (py ''111-4811339-2368245'') (- 10) (r_inflow \<lparr>r_date = py ''2023-12-04'', r_parsed_date = Some (py ''2023-12-04'', 50),
       r_payee = py ''Amazon Tips'', r_order_id = Some (py ''111-4811339-2368245''),
       r_outflow = Parsed 10, r_inflow = Blank\<rparr> \<noteq> Blank) \<notin> {} \<and>
   load_order_history [\<lparr>ri_order_id = py ''111-4811339-2368245'', ri_name = py ''Bananas'', ri_total = 10,
        ri_ship_date = Some 50, ri_quantity = 1, ri_shipping_option = py ''scheduled-houdini''\<rparr>] (py ''111-4811339-2368245'') = Some (build_order [\<lparr>ri_order_id = py ''111-4811339-2368245'', ri_name = py ''Bananas'', ri_total = 10,
        ri_ship_date = Some 50, ri_quantity = 1, ri_shipping_option = py ''scheduled-houdini''\<rparr>]) \<and>
   o_is_grocery (build_order [\<lparr>ri_order_id = py ''111-4811339-2368245'', ri_name = py ''Bananas'', ri_total = 10,
        ri_ship_date = Some 50, ri_quantity = 1, ri_shipping_option = py ''scheduled-houdini''\<rparr>]) \<and>
   process_row {} (load_order_history [\<lparr>ri_order_id = py ''111-4811339-2368245'', ri_name = py ''Bananas'', ri_total = 10,
        ri_ship_date = Some 50, ri_quantity = 1, ri_shipping_option = py ''scheduled-houdini''\<rparr>]) \<lparr>r_date = py ''2023-12-04'', r_parsed_date = Some (py ''2023-12-04'', 50),
       r_payee = py ''Amazon Tips'', r_order_id = Some (py ''111-4811339-2368245''),
       r_outflow = Parsed 10, r_inflow = Blank\<rparr> =
     Append ((new_txn \<lparr>r_date = py ''2023-12-04'', r_parsed_date = Some (py ''2023-12-04'', 50),
       r_payee = py ''Amazon Tips'', r_order_id = Some (py ''111-4811339-2368245''),
       r_outflow = Parsed 10, r_inflow = Blank\<rparr> (py ''111-4811339-2368245'') (- 10))
       \<lparr>t_memo := py ''Delivery Tip'',
        t_splits := [\<lparr>sp_category = py ''Delivery Fee'',
                      sp_amount = signed_amount (r_inflow \<lparr>r_date = py ''2023-12-04'', r_parsed_date = Some (py ''2023-12-04'', 50),
       r_payee = py ''Amazon Tips'', r_order_id = Some (py ''111-4811339-2368245''),
       r_outflow = Parsed 10, r_inflow = Blank\<rparr> \<noteq> Blank) (- 10),
                      sp_memo = py ''Delivery Tip'', sp_items = []\<rparr>],
        t_items := Some [], t_items_with_amounts := Some []\<rparr>)"
proof -
  have tip: "sublist (py ''amazon tips'') (lower (r_payee \<lparr>r_date = py ''2023-12-04'', r_parsed_date = Some (py ''2023-12-04'', 50),
       r_payee = py ''Amazon Tips'', r_order_id = Some (py ''111-4811339-2368245''),
       r_outflow = Parsed 10, r_inflow = Blank\<rparr>))"
    by code_simp
  have oid: "r_order_id \<lparr>r_date = py ''2023-12-04'', r_parsed_date = Some (py ''2023-12-04'', 50),
       r_payee = py ''Amazon Tips'', r_order_id = Some (py ''111-4811339-2368245''),
       r_outflow = Parsed 10, r_inflow = Blank\<rparr> = Some (py ''111-4811339-2368245'')"
    by simp
  have ne: "py ''111-4811339-2368245'' \<noteq> []"
    by (simp add: py_def)
  have amt: "parse_amount (r_inflow \<lparr>r_date = py ''2023-12-04'', r_parsed_date = Some (py ''2023-12-04'', 50),
       r_payee = py ''Amazon Tips'', r_order_id = Some (py ''111-4811339-2368245''),
       r_outflow = Parsed 10, r_inflow = Blank\<rparr>) (r_outflow \<lparr>r_date = py ''2023-12-04'', r_parsed_date = Some (py ''2023-12-04'', 50),
       r_payee = py ''Amazon Tips'', r_order_id = Some (py ''111-4811339-2368245''),
       r_outflow = Parsed 10, r_inflow = Blank\<rparr>) = Some (- 10)"
    by (simp add: parse_amount_def)
  have new: "import_id_of (py ''111-4811339-2368245'') (- 10) (r_inflow \<lparr>r_date = py ''2023-12-04'', r_parsed_date = Some (py ''2023-12-04'', 50),
       r_payee = py ''Amazon Tips'', r_order_id = Some (py ''111-4811339-2368245''),
       r_outflow = Parsed 10, r_inflow = Blank\<rparr> \<noteq> Blank) \<notin> {}"
    by simp
  have found: "load_order_history [\<lparr>ri_order_id = py ''111-4811339-2368245'', ri_name = py ''Bananas'', ri_total = 10,
        ri_ship_date = Some 50, ri_quantity = 1, ri_shipping_option = py ''scheduled-houdini''\<rparr>] (py ''111-4811339-2368245'') = Some (build_order [\<lparr>ri_order_id = py ''111-4811339-2368245'', ri_name = py ''Bananas'', ri_total = 10,
        ri_ship_date = Some 50, ri_quantity = 1, ri_shipping_option = py ''scheduled-houdini''\<rparr>])"
    by (simp add: load_order_history_def py_def)
  have grocery: "o_is_grocery (build_order [\<lparr>ri_order_id = py ''111-4811339-2368245'', ri_name = py ''Bananas'', ri_total = 10,
        ri_ship_date = Some 50, ri_quantity = 1, ri_shipping_option = py ''scheduled-houdini''\<rparr>])"
    by code_simp
  from tip_single_split [of "\<lparr>r_date = py ''2023-12-04'', r_parsed_date = Some (py ''2023-12-04'', 50),
       r_payee = py ''Amazon Tips'', r_order_id = Some (py ''111-4811339-2368245''),
       r_outflow = Parsed 10, r_inflow = Blank\<rparr>" "py ''111-4811339-2368245''" "- 10" "{}"
      "load_order_history [\<lparr>ri_order_id = py ''111-4811339-2368245'', ri_name = py ''Bananas'', ri_total = 10,
        ri_ship_date = Some 50, ri_quantity = 1, ri_shipping_option = py ''scheduled-houdini''\<rparr>]" "build_order [\<lparr>ri_order_id = py ''111-4811339-2368245'', ri_name = py ''Bananas'', ri_total = 10,
        ri_ship_date = Some 50, ri_quantity = 1, ri_shipping_option = py ''scheduled-houdini''\<rparr>]"]
    tip oid ne amt new found grocery
  show ?thesis by blast
qed

text \<open>The claim as the specification words it fails: the tip check is not evaluated first.
  A tip whose order is absent from the order history is emitted with the blue flag and the
  memo \<open>NEEDS ITEMIZATION\<close>, without a split.\<close>

theorem tip_single_split_counterexample:
  "sublist (py ''amazon tips'') (lower (r_payee \<lparr>r_date = py ''2023-12-04'', r_parsed_date = Some (py ''2023-12-04'', 50),
       r_payee = py ''Amazon Tips'', r_order_id = Some (py ''111-4811339-2368245''),
       r_outflow = Parsed 10, r_inflow = Blank\<rparr>)) \<and>
   process_row {} (load_order_history []) \<lparr>r_date = py ''2023-12-04'', r_parsed_date = Some (py ''2023-12-04'', 50),
       r_payee = py ''Amazon Tips'', r_order_id = Some (py ''111-4811339-2368245''),
       r_outflow = Parsed 10, r_inflow = Blank\<rparr> =
   Append \<lparr>t_import_id = py ''AMZ2:111-4811339-2368245:1000:P'', t_date = py ''2023-12-04'',
           t_order_id = py ''111-4811339-2368245'', t_amount = - 10, t_payee = py ''Amazon.com'',
           t_memo = py ''Order 111-4811339-2368245 - NEEDS ITEMIZATION'',
           t_is_refund = False, t_is_grocery = False, t_flag = blue, t_splits = [],
           t_items = None, t_items_with_amounts = None, t_grocery_items = None,
           t_all_items = None\<rparr>"
  by code_simp

section \<open>Properties of the import id and of the synchronisation pass\<close>












section \<open>Properties of the category cache\<close>





















section \<open>The unmatched category on the two categorizer paths\<close>

text \<open>The asynchronous path: an answer that does not match, followed by a retry that fails,
  files the item under the fallback category and caches it so.\<close>

lemma retrieve_line_fallback:
  assumes "0 \<le> fst line - 1" and "fst line - 1 < int (length names)"
    and "looks_like_product (clean_category (snd line)) \<or>
         \<not> snd (match_category (clean_category (snd line)) ynab_categories)"
    and "\<not> truthy (retry_categorize_item (names ! nat (fst line - 1)) ynab_categories cl)"
  shows "b_categories (retrieve_line cl ynab_categories names st line) =
           dd_append (b_categories st) (fallback_category ynab_categories) (names ! nat (fst line - 1)) \<and>
         b_cache (retrieve_line cl ynab_categories names st line) =
           cache_category (b_cache st) (names ! nat (fst line - 1)) (fallback_category ynab_categories) \<and>
         b_unmatched (retrieve_line cl ynab_categories names st line) =
           dd_append (b_unmatched st) (clean_category (snd line)) (names ! nat (fst line - 1))"
  using assms
  by (auto simp: retrieve_line_def Let_def split_def)

text \<open>
  C9. An item whose classifier answer fails the fuzzy matching and whose single-item retry
  fails as well is to be logged as unmatched and assigned the fallback category, never the
  unmatched text. The synchronous path \<open>batch_categorize_items\<close> does not do so: for the
  item \<open>Widget\<close>, the valid categories \<open>Groceries\<close> and \<open>Electronics\<close>, the chunk answer
  \<open>1. Gadgets\<close> and the retry answer \<open>Thingamajig\<close>, it logs \<open>Gadgets\<close> as unmatched and
  then files and caches the item under \<open>Gadgets\<close>, which becomes the category of the
  item's split. On the same line \<open>retrieve_batch_results\<close> files the item under
  \<open>Groceries\<close>.
\<close>

theorem batch_line_keeps_unmatched_text:
  "results (batch_categorize_items [(py ''AMZ2:1'', [py ''Widget''])] \<lparr>chunk_reply = (\<lambda>descriptions. Some [(1, py '' Gadgets'')]),
        retry_reply = (\<lambda>item. Some (py ''Thingamajig'')),
        resubmit_reply = (\<lambda>item original_category. None)\<rparr>
        [py ''Groceries'', py ''Electronics''] \<lparr>entries = Map.empty, dirty = False\<rparr>) (py ''AMZ2:1'') = [(py ''Gadgets'', [py ''Widget''])] \<and>
   get_cached_category (cache (batch_categorize_items [(py ''AMZ2:1'', [py ''Widget''])] \<lparr>chunk_reply = (\<lambda>descriptions. Some [(1, py '' Gadgets'')]),
        retry_reply = (\<lambda>item. Some (py ''Thingamajig'')),
        resubmit_reply = (\<lambda>item original_category. None)\<rparr>
        [py ''Groceries'', py ''Electronics''] \<lparr>entries = Map.empty, dirty = False\<rparr>)) (py ''Widget'') = Some (py ''Gadgets'') \<and>
   py ''Gadgets'' \<in> unmatched_categories (batch_categorize_items [(py ''AMZ2:1'', [py ''Widget''])] \<lparr>chunk_reply = (\<lambda>descriptions. Some [(1, py '' Gadgets'')]),
        retry_reply = (\<lambda>item. Some (py ''Thingamajig'')),
        resubmit_reply = (\<lambda>item original_category. None)\<rparr>
        [py ''Groceries'', py ''Electronics''] \<lparr>entries = Map.empty, dirty = False\<rparr>) \<and>
   py ''Gadgets'' \<notin> set [py ''Groceries'', py ''Electronics''] \<and>
   calls (batch_categorize_items [(py ''AMZ2:1'', [py ''Widget''])] \<lparr>chunk_reply = (\<lambda>descriptions. Some [(1, py '' Gadgets'')]),
        retry_reply = (\<lambda>item. Some (py ''Thingamajig'')),
        resubmit_reply = (\<lambda>item original_category. None)\<rparr>
        [py ''Groceries'', py ''Electronics''] \<lparr>entries = Map.empty, dirty = False\<rparr>) = [ChunkCall [(py ''AMZ2:1'', py ''Widget'')], RetryCall (py ''Widget'')] \<and>
   map sp_category (t_splits (apply_categorization \<lparr>t_import_id = py ''AMZ2:1'', t_date = py ''2024-01-11'',
       t_order_id = py ''111-0000000-0000001'', t_amount = - 10, t_payee = py ''Amazon.com'',
       t_memo = py ''Order 111-0000000-0000001'', t_is_refund = False, t_is_grocery = False,
       t_flag = yellow, t_splits = [], t_items = Some [py ''Widget''],
       t_items_with_amounts = Some [\<lparr>a_name = py ''Widget'', a_base_name = Some (py ''Widget''),
          a_amount = 10, a_original_total = Some 10, a_qty = Some 1\<rparr>],
       t_grocery_items = None, t_all_items = None\<rparr> (results (batch_categorize_items [(py ''AMZ2:1'', [py ''Widget''])] \<lparr>chunk_reply = (\<lambda>descriptions. Some [(1, py '' Gadgets'')]),
        retry_reply = (\<lambda>item. Some (py ''Thingamajig'')),
        resubmit_reply = (\<lambda>item original_category. None)\<rparr>
        [py ''Groceries'', py ''Electronics''] \<lparr>entries = Map.empty, dirty = False\<rparr>) (py ''AMZ2:1'')))) =
     [py ''Gadgets''] \<and>
   b_categories (retrieve_line \<lparr>chunk_reply = (\<lambda>descriptions. Some [(1, py '' Gadgets'')]),
        retry_reply = (\<lambda>item. Some (py ''Thingamajig'')),
        resubmit_reply = (\<lambda>item original_category. None)\<rparr> [py ''Groceries'', py ''Electronics''] [py ''Widget'']
       \<lparr>b_cache = \<lparr>entries = Map.empty, dirty = False\<rparr>, b_categories = [], b_unmatched = [], b_calls = []\<rparr> (1, py '' Gadgets'')) =
     [(py ''Groceries'', [py ''Widget''])]"
  by code_simp

section \<open>The sum of the splits of an itemized charge\<close>

text \<open>
  C1. The splits of an itemized charge are to add up to the charge amount, the last item
  taking the remainder of the rounding. Pass 1 rounds every item, the last one included,
  and pass 2 of the synchronous mode copies the rounded amounts into the splits: for a
  charge of 1.00 on a shipment of three items of 1.00 each, every item is allocated 0.33
  and the three splits add up to -0.99, not to the charge of -1.00.
\<close>

theorem splits_miss_charge_amount:
  "process_row {} (load_order_history [\<lparr>ri_order_id = py ''111-0000000-0000001'', ri_name = py ''Item A'', ri_total = 1,
        ri_ship_date = Some 100, ri_quantity = 1, ri_shipping_option = py ''standard''\<rparr>,
       \<lparr>ri_order_id = py ''111-0000000-0000001'', ri_name = py ''Item B'', ri_total = 1,
        ri_ship_date = Some 100, ri_quantity = 1, ri_shipping_option = py ''standard''\<rparr>,
       \<lparr>ri_order_id = py ''111-0000000-0000001'', ri_name = py ''Item C'', ri_total = 1,
        ri_ship_date = Some 100, ri_quantity = 1, ri_shipping_option = py ''standard''\<rparr>]) \<lparr>r_date = py ''2024-01-11'', r_parsed_date = Some (py ''2024-01-11'', 101),
       r_payee = py ''Amazon.com'', r_order_id = Some (py ''111-0000000-0000001''),
       r_outflow = Parsed 1, r_inflow = Blank\<rparr> =
     Queue \<lparr>t_import_id = py ''AMZ2:111-0000000-0000001:100:P'', t_date = py ''2024-01-11'',
       t_order_id = py ''111-0000000-0000001'', t_amount = - 1, t_payee = py ''Amazon.com'',
       t_memo = py ''Order 111-0000000-0000001'', t_is_refund = False, t_is_grocery = False,
       t_flag = yellow, t_splits = [],
       t_items = Some [py ''Item A'', py ''Item B'', py ''Item C''],
       t_items_with_amounts = Some
          [\<lparr>a_name = py ''Item A'', a_base_name = Some (py ''Item A''), a_amount = 33 / 100,
            a_original_total = Some 1, a_qty = Some 1\<rparr>,
           \<lparr>a_name = py ''Item B'', a_base_name = Some (py ''Item B''), a_amount = 33 / 100,
            a_original_total = Some 1, a_qty = Some 1\<rparr>,
           \<lparr>a_name = py ''Item C'', a_base_name = Some (py ''Item C''), a_amount = 33 / 100,
            a_original_total = Some 1, a_qty = Some 1\<rparr>],
       t_grocery_items = None, t_all_items = None\<rparr> [py ''Item A'', py ''Item B'', py ''Item C''] \<and>
   map sp_amount (t_splits (apply_categorization \<lparr>t_import_id = py ''AMZ2:111-0000000-0000001:100:P'', t_date = py ''2024-01-11'',
       t_order_id = py ''111-0000000-0000001'', t_amount = - 1, t_payee = py ''Amazon.com'',
       t_memo = py ''Order 111-0000000-0000001'', t_is_refund = False, t_is_grocery = False,
       t_flag = yellow, t_splits = [],
       t_items = Some [py ''Item A'', py ''Item B'', py ''Item C''],
       t_items_with_amounts = Some
          [\<lparr>a_name = py ''Item A'', a_base_name = Some (py ''Item A''), a_amount = 33 / 100,
            a_original_total = Some 1, a_qty = Some 1\<rparr>,
           \<lparr>a_name = py ''Item B'', a_base_name = Some (py ''Item B''), a_amount = 33 / 100,
            a_original_total = Some 1, a_qty = Some 1\<rparr>,
           \<lparr>a_name = py ''Item C'', a_base_name = Some (py ''Item C''), a_amount = 33 / 100,
            a_original_total = Some 1, a_qty = Some 1\<rparr>],
       t_grocery_items = None, t_all_items = None\<rparr>
       [(py ''Household Supplies'', [py ''Item A'', py ''Item B'', py ''Item C''])])) =
     [- (33 / 100), - (33 / 100), - (33 / 100)] \<and>
   sum_list (map sp_amount (t_splits (apply_categorization \<lparr>t_import_id = py ''AMZ2:111-0000000-0000001:100:P'', t_date = py ''2024-01-11'',
       t_order_id = py ''111-0000000-0000001'', t_amount = - 1, t_payee = py ''Amazon.com'',
       t_memo = py ''Order 111-0000000-0000001'', t_is_refund = False, t_is_grocery = False,
       t_flag = yellow, t_splits = [],
       t_items = Some [py ''Item A'', py ''Item B'', py ''Item C''],
       t_items_with_amounts = Some
          [\<lparr>a_name = py ''Item A'', a_base_name = Some (py ''Item A''), a_amount = 33 / 100,
            a_original_total = Some 1, a_qty = Some 1\<rparr>,
           \<lparr>a_name = py ''Item B'', a_base_name = Some (py ''Item B''), a_amount = 33 / 100,
            a_original_total = Some 1, a_qty = Some 1\<rparr>,
           \<lparr>a_name = py ''Item C'', a_base_name = Some (py ''Item C''), a_amount = 33 / 100,
            a_original_total = Some 1, a_qty = Some 1\<rparr>],
       t_grocery_items = None, t_all_items = None\<rparr>
       [(py ''Household Supplies'', [py ''Item A'', py ''Item B'', py ''Item C''])]))) = - (99 / 100) \<and>
   t_amount \<lparr>t_import_id = py ''AMZ2:111-0000000-0000001:100:P'', t_date = py ''2024-01-11'',
       t_order_id = py ''111-0000000-0000001'', t_amount = - 1, t_payee = py ''Amazon.com'',
       t_memo = py ''Order 111-0000000-0000001'', t_is_refund = False, t_is_grocery = False,
       t_flag = yellow, t_splits = [],
       t_items = Some [py ''Item A'', py ''Item B'', py ''Item C''],
       t_items_with_amounts = Some
          [\<lparr>a_name = py ''Item A'', a_base_name = Some (py ''Item A''), a_amount = 33 / 100,
            a_original_total = Some 1, a_qty = Some 1\<rparr>,
           \<lparr>a_name = py ''Item B'', a_base_name = Some (py ''Item B''), a_amount = 33 / 100,
            a_original_total = Some 1, a_qty = Some 1\<rparr>,
           \<lparr>a_name = py ''Item C'', a_base_name = Some (py ''Item C''), a_amount = 33 / 100,
            a_original_total = Some 1, a_qty = Some 1\<rparr>],
       t_grocery_items = None, t_all_items = None\<rparr> = - 1"
  by code_simp

text \<open>The later stage \<open>build_subtransactions\<close> of sync_to_ynab.py does what the claim asks,
  in thousandths: after its correction of the last amount the parts add up to the parent
  amount.\<close>

lemma sum_list_update_last:
  assumes "xs \<noteq> []"
  shows "sum_list (map f (xs[length xs - 1 := y])) = sum_list (map f xs) - f (last xs) + (f y :: int)"
proof -
  from assms obtain ys z where xs: "xs = ys @ [z]"
    by (cases xs rule: rev_cases) auto
  then show ?thesis by simp
qed

lemma build_subtransactions_sum:
  assumes "build_subtransactions tx cat_mapping = Some subs"
  shows "sum_list (map st_amount subs) = milliunits (t_amount tx)"
proof -
  let ?subs = "map (\<lambda>sp. \<lparr>st_amount = milliunits (sp_amount sp),
                          st_category_id = find_category_id (sp_category sp) cat_mapping,
                          st_memo = take 200 (sp_memo sp)\<rparr>) (t_splits tx)"
  let ?diff = "milliunits (t_amount tx) - sum_list (map st_amount ?subs)"
  from assms have ne: "t_splits tx \<noteq> []"
    by (auto simp: build_subtransactions_def split: if_splits)
  then have ne': "?subs \<noteq> []" by simp
  show ?thesis
  proof (cases "?diff = 0")
    case True
    with assms ne have "subs = ?subs"
      by (simp add: build_subtransactions_def Let_def)
    with True show ?thesis by simp
  next
    case False
    with assms ne have "subs = ?subs[length ?subs - 1 :=
        (last ?subs)\<lparr>st_amount := st_amount (last ?subs) + ?diff\<rparr>]"
      by (simp add: build_subtransactions_def Let_def)
    then show ?thesis
      using sum_list_update_last [OF ne', of st_amount] by simp
  qed
qed

end
